theory Spec2Isabelle
  imports Main "HOL-Library.Word"
begin

section \<open>AidAuditor: the custody ledger and milestone-release engine\<close>

text \<open>
  A shallow embedding of the Solidity contract \<^verbatim>\<open>src/Smart Contract/AidAuditor.sol\<close>.
  Every external function is a function from the call environment and the contract state
  to \<open>error + state\<close>: a revert is \<open>Inl\<close> and carries no state, since the EVM
  discards every change of a reverted transaction.

  Modelling decisions:
  \<^item> \<open>uint256\<close> and \<open>bytes32\<close> are \<open>256 word\<close>, an address is \<open>160 word\<close>.
    The contract computes with SafeMath under Solidity 0.8, so every addition,
    subtraction and multiplication reverts instead of wrapping; \<open>safe_add\<close>,
    \<open>safe_sub\<close>, \<open>safe_mul\<close>, \<open>safe_div\<close> write that out.
  \<^item> the ether held by the contract (\<open>address(this).balance\<close>) is the natural number
    \<open>balance\<close>; the successful outgoing value transfers are recorded, oldest first, in
    \<open>sent\<close>.
  \<^item> \<open>recipient.call{value: v}("")\<close> is \<open>call_value\<close>: it fails when the contract
    holds less than \<open>v\<close> or when the recipient does not accept the payment
    (\<open>accepts\<close> of the environment). The recipient's code is not run: calls back into
    the contract during a transfer are outside this model.
  \<^item> \<open>keccak256(abi.encodePacked(a)) == keccak256(abi.encodePacked(b))\<close> on strings is
    modelled as \<open>a = b\<close>.
  \<^item> only \<open>initAsset\<close> is \<open>payable\<close>: every other external function starts
    with the check that the call carries no value (\<open>msg_value e = 0\<close>).
  \<^item> of OpenZeppelin's AccessControl only the membership table \<open>roles\<close>, the fixed
    role-admin assignment made by the constructor and the three public functions
    \<open>grantRole\<close>, \<open>revokeRole\<close>, \<open>renounceRole\<close> are modelled, for the five roles
    the contract uses.
\<close>

subsection \<open>Types\<close>

type_synonym uint256 = "256 word"
type_synonym bytes32 = "256 word"
type_synonym address = "160 word"

datatype Stage = Warehouse | Transport | Hub | LocalTransport | Beneficiary

text \<open>The ordinal of a stage; Solidity compares enum values by it.\<close>

fun stage_index :: "Stage \<Rightarrow> nat" where
  "stage_index Warehouse = 0"
| "stage_index Transport = 1"
| "stage_index Hub = 2"
| "stage_index LocalTransport = 3"
| "stage_index Beneficiary = 4"

datatype role = DEFAULT_ADMIN_ROLE | ADMIN_ROLE | AUDITOR_ROLE | SCANNER_ROLE | NGO_ROLE

record Asset =
  allocatedFunds :: uint256
  releasedFunds :: uint256
  scansCount :: uint256
  donorTimestamp :: uint256
  assetDescription :: string
  currentGeoTag :: string
  currentStage :: Stage
  isFlagged :: bool
  isRefunded :: bool
  donor :: address
  assignedNGO :: address

record ScanLog =
  timestamp :: uint256
  scanner :: address
  geoTag :: string
  scanStage :: Stage
  photoHash :: bytes32
  anomalyFlagged :: bool
  scanNotes :: string

record Milestone =
  stage :: Stage
  releasePercentage :: uint256
  isReleased :: bool

datatype event =
    AssetInitialized bytes32 address address uint256 string
  | ScanLogged bytes32 address Stage string bool
  | MilestoneReached bytes32 Stage uint256
  | FundsReleased bytes32 address uint256 Stage
  | AssetFlagged bytes32 address string
  | AssetUnflagged bytes32 address
  | Refunded bytes32 address uint256

text \<open>One constructor for each revert reason of the contract and its libraries.
  \<open>Non_payable\<close> is the revert without data of a function that is not
  \<open>payable\<close> when the call carries value; it comes before every modifier.\<close>

datatype error =
    Invalid_admin
  | Invalid_auditor
  | Invalid_assetID
  | Must_send_funds
  | Invalid_NGO_address
  | NGO_not_registered
  | Asset_already_exists
  | Asset_not_initialized
  | Asset_is_flagged
  | Transfer_failed
  | Insufficient_funds
  | Amount_must_be_positive
  | Not_the_donor
  | Already_refunded
  | Not_eligible_for_refund
  | No_funds_to_refund
  | Refund_transfer_failed
  | Must_be_positive
  | Invalid_recipient
  | No_balance
  | Withdrawal_failed
  | Missing_role role
  | Renounce_not_self
  | Panic_arithmetic
  | Panic_division_by_zero
  | Non_payable

record state =
  roles :: "role \<Rightarrow> address \<Rightarrow> bool"
  minScansForFirstPayout :: uint256
  assets :: "bytes32 \<Rightarrow> Asset"
  assetHistory :: "bytes32 \<Rightarrow> ScanLog list"
  assetMilestones :: "bytes32 \<Rightarrow> Milestone list"
  donorTotalContributions :: "address \<Rightarrow> uint256"
  ngoTotalReceived :: "address \<Rightarrow> uint256"
  donorAssets :: "address \<Rightarrow> bytes32 list"
  totalAssetsTracked :: uint256
  totalFundsAllocated :: uint256
  totalFundsReleased :: uint256
  balance :: nat
  sent :: "(address \<times> nat) list"
  events :: "event list"

text \<open>What a call sees of its transaction, and which recipients accept a payment.\<close>

record env =
  msg_sender :: address
  msg_value :: uint256
  block_timestamp :: uint256
  accepts :: "address \<Rightarrow> bool"

subsection \<open>Checked arithmetic and sequencing\<close>

definition bindE :: "error + 'a \<Rightarrow> ('a \<Rightarrow> error + 'b) \<Rightarrow> error + 'b" where
  "bindE m f = (case m of Inl e \<Rightarrow> Inl e | Inr x \<Rightarrow> f x)"

definition safe_add :: "uint256 \<Rightarrow> uint256 \<Rightarrow> error + uint256" where
  "safe_add a b = (if unat a + unat b < 2 ^ 256 then Inr (a + b) else Inl Panic_arithmetic)"

definition safe_sub :: "uint256 \<Rightarrow> uint256 \<Rightarrow> error + uint256" where
  "safe_sub a b = (if b \<le> a then Inr (a - b) else Inl Panic_arithmetic)"

definition safe_mul :: "uint256 \<Rightarrow> uint256 \<Rightarrow> error + uint256" where
  "safe_mul a b = (if unat a * unat b < 2 ^ 256 then Inr (a * b) else Inl Panic_arithmetic)"

definition safe_div :: "uint256 \<Rightarrow> uint256 \<Rightarrow> error + uint256" where
  "safe_div a b = (if b = 0 then Inl Panic_division_by_zero else Inr (a div b))"

definition REFUND_LOCK_PERIOD :: uint256 where
  "REFUND_LOCK_PERIOD = 2592000"

subsection \<open>Access control and value transfer\<close>

definition hasRole :: "state \<Rightarrow> role \<Rightarrow> address \<Rightarrow> bool" where
  "hasRole s r a = roles s r a"

text \<open>The role administering each role, as the constructor sets it (lines 142-144);
  the two admin roles keep AccessControl's default, \<open>DEFAULT_ADMIN_ROLE\<close>.\<close>

fun getRoleAdmin :: "role \<Rightarrow> role" where
  "getRoleAdmin AUDITOR_ROLE = ADMIN_ROLE"
| "getRoleAdmin SCANNER_ROLE = ADMIN_ROLE"
| "getRoleAdmin NGO_ROLE = ADMIN_ROLE"
| "getRoleAdmin ADMIN_ROLE = DEFAULT_ADMIN_ROLE"
| "getRoleAdmin DEFAULT_ADMIN_ROLE = DEFAULT_ADMIN_ROLE"

definition grant_role :: "role \<Rightarrow> address \<Rightarrow> state \<Rightarrow> state" where
  "grant_role r a s = s\<lparr>roles := (roles s)(r := (roles s r)(a := True))\<rparr>"

definition revoke_role :: "role \<Rightarrow> address \<Rightarrow> state \<Rightarrow> state" where
  "revoke_role r a s = s\<lparr>roles := (roles s)(r := (roles s r)(a := False))\<rparr>"

definition grantRole :: "env \<Rightarrow> role \<Rightarrow> address \<Rightarrow> state \<Rightarrow> error + state" where
  "grantRole e r a s =
     (if msg_value e \<noteq> 0 then Inl Non_payable
      else if \<not> hasRole s (getRoleAdmin r) (msg_sender e) then Inl (Missing_role (getRoleAdmin r))
      else Inr (grant_role r a s))"

definition revokeRole :: "env \<Rightarrow> role \<Rightarrow> address \<Rightarrow> state \<Rightarrow> error + state" where
  "revokeRole e r a s =
     (if msg_value e \<noteq> 0 then Inl Non_payable
      else if \<not> hasRole s (getRoleAdmin r) (msg_sender e) then Inl (Missing_role (getRoleAdmin r))
      else Inr (revoke_role r a s))"

definition renounceRole :: "env \<Rightarrow> role \<Rightarrow> address \<Rightarrow> state \<Rightarrow> error + state" where
  "renounceRole e r a s =
     (if msg_value e \<noteq> 0 then Inl Non_payable
      else if a \<noteq> msg_sender e then Inl Renounce_not_self else Inr (revoke_role r a s))"

text \<open>\<open>to.call{value: v}("")\<close>: \<open>None\<close> is \<open>success = false\<close>.\<close>

definition call_value :: "env \<Rightarrow> address \<Rightarrow> nat \<Rightarrow> state \<Rightarrow> state option" where
  "call_value e to v s =
     (if v \<le> balance s \<and> accepts e to
      then Some (s\<lparr>balance := balance s - v, sent := sent s @ [(to, v)]\<rparr>)
      else None)"

definition emit :: "event \<Rightarrow> state \<Rightarrow> state" where
  "emit ev s = s\<lparr>events := events s @ [ev]\<rparr>"

subsection \<open>The constructor\<close>

definition empty_asset :: Asset where
  "empty_asset = \<lparr>allocatedFunds = 0, releasedFunds = 0, scansCount = 0, donorTimestamp = 0,
     assetDescription = [], currentGeoTag = [], currentStage = Warehouse,
     isFlagged = False, isRefunded = False, donor = 0, assignedNGO = 0\<rparr>"

definition constructor_state :: "address \<Rightarrow> address \<Rightarrow> state" where
  "constructor_state admin auditor =
     grant_role AUDITOR_ROLE auditor (grant_role ADMIN_ROLE admin
       (grant_role DEFAULT_ADMIN_ROLE admin
         \<lparr>roles = (\<lambda>r a. False), minScansForFirstPayout = 2,
          assets = (\<lambda>i. empty_asset), assetHistory = (\<lambda>i. []),
          assetMilestones = (\<lambda>i. []), donorTotalContributions = (\<lambda>a. 0),
          ngoTotalReceived = (\<lambda>a. 0), donorAssets = (\<lambda>a. []),
          totalAssetsTracked = 0, totalFundsAllocated = 0, totalFundsReleased = 0,
          balance = 0, sent = [], events = []\<rparr>))"

definition constructor :: "address \<Rightarrow> address \<Rightarrow> error + state" where
  "constructor admin auditor =
     (if admin = 0 then Inl Invalid_admin
      else if auditor = 0 then Inl Invalid_auditor
      else Inr (constructor_state admin auditor))"

subsection \<open>Modifiers and storage access\<close>

text \<open>\<open>assetExists\<close> (lines 148-151): an asset exists when its donor is set.\<close>

definition assetExists :: "state \<Rightarrow> bytes32 \<Rightarrow> bool" where
  "assetExists s i = (donor (assets s i) \<noteq> 0)"

text \<open>A write through the storage reference \<open>assets[_assetID]\<close>.\<close>

definition upd_asset :: "bytes32 \<Rightarrow> (Asset \<Rightarrow> Asset) \<Rightarrow> state \<Rightarrow> state" where
  "upd_asset i f s = s\<lparr>assets := (assets s)(i := f (assets s i))\<rparr>"

subsection \<open>initAsset (lines 167-213)\<close>

definition setupDefaultMilestones :: "bytes32 \<Rightarrow> state \<Rightarrow> state" where
  "setupDefaultMilestones i s =
     s\<lparr>assetMilestones := (assetMilestones s)(i := assetMilestones s i @
        [\<lparr>stage = Hub, releasePercentage = 40, isReleased = False\<rparr>,
         \<lparr>stage = Beneficiary, releasePercentage = 60, isReleased = False\<rparr>])\<rparr>"

definition initAsset ::
  "env \<Rightarrow> bytes32 \<Rightarrow> string \<Rightarrow> address \<Rightarrow> string \<Rightarrow> state \<Rightarrow> error + state" where
  "initAsset e i description ngo initialGeoTag s =
     (if i = 0 then Inl Invalid_assetID
      else if msg_value e = 0 then Inl Must_send_funds
      else if ngo = 0 then Inl Invalid_NGO_address
      else if \<not> hasRole s NGO_ROLE ngo then Inl NGO_not_registered
      else if donor (assets s i) \<noteq> 0 then Inl Asset_already_exists
      else
        let s0 = s\<lparr>balance := balance s + unat (msg_value e)\<rparr>;
            s1 = upd_asset i (\<lambda>a. a\<lparr>allocatedFunds := msg_value e, donor := msg_sender e,
                   assignedNGO := ngo, donorTimestamp := block_timestamp e,
                   assetDescription := description, currentGeoTag := initialGeoTag,
                   currentStage := Warehouse, scansCount := 1\<rparr>) s0;
            s2 = setupDefaultMilestones i s1;
            s3 = s2\<lparr>assetHistory := (assetHistory s2)(i := assetHistory s2 i @
                   [\<lparr>timestamp = block_timestamp e, scanner = msg_sender e,
                     geoTag = initialGeoTag, scanStage = Warehouse, photoHash = 0,
                     anomalyFlagged = False, scanNotes = ''Asset initialized''\<rparr>])\<rparr>;
            s4 = s3\<lparr>donorAssets := (donorAssets s3)(msg_sender e :=
                   donorAssets s3 (msg_sender e) @ [i])\<rparr>
        in bindE (safe_add (donorTotalContributions s4 (msg_sender e)) (msg_value e)) (\<lambda>c.
           bindE (safe_add (totalAssetsTracked s4) 1) (\<lambda>n.
           bindE (safe_add (totalFundsAllocated s4) (msg_value e)) (\<lambda>t.
             Inr (emit (AssetInitialized i (msg_sender e) ngo (msg_value e) description)
               (s4\<lparr>donorTotalContributions :=
                      (donorTotalContributions s4)(msg_sender e := c),
                    totalAssetsTracked := n, totalFundsAllocated := t\<rparr>))))))"

subsection \<open>The milestone release engine (lines 306-338)\<close>

text \<open>The loop condition of line 314 for the milestone at index \<open>k\<close>.\<close>

definition milestone_due :: "state \<Rightarrow> bytes32 \<Rightarrow> nat \<Rightarrow> bool" where
  "milestone_due s i k =
     (let asset = assets s i; milestone = assetMilestones s i ! k
      in stage_index (stage milestone) \<le> stage_index (currentStage asset)
         \<and> \<not> isReleased milestone
         \<and> minScansForFirstPayout s \<le> scansCount asset)"

text \<open>Lines 315-320: the nominal amount, reduced to the remainder when it would
  over-release.\<close>

definition releaseAmount :: "state \<Rightarrow> bytes32 \<Rightarrow> nat \<Rightarrow> error + uint256" where
  "releaseAmount s i k =
     (let asset = assets s i; milestone = assetMilestones s i ! k
      in bindE (safe_mul (allocatedFunds asset) (releasePercentage milestone)) (\<lambda>p.
         bindE (safe_div p 100) (\<lambda>nominal.
         bindE (safe_add (releasedFunds asset) nominal) (\<lambda>total.
           if allocatedFunds asset < total
           then safe_sub (allocatedFunds asset) (releasedFunds asset)
           else Inr nominal))))"

text \<open>Lines 323-324: what is written before the call to the NGO.\<close>

definition release_before_call :: "bytes32 \<Rightarrow> nat \<Rightarrow> uint256 \<Rightarrow> state \<Rightarrow> error + state" where
  "release_before_call i k amount s =
     (let s1 = s\<lparr>assetMilestones := (assetMilestones s)(i :=
                 (assetMilestones s i)[k := (assetMilestones s i ! k)\<lparr>isReleased := True\<rparr>])\<rparr>
      in bindE (safe_add (releasedFunds (assets s1 i)) amount) (\<lambda>r.
           Inr (upd_asset i (\<lambda>a. a\<lparr>releasedFunds := r\<rparr>) s1)))"

text \<open>Lines 330-334: what is written after the call has succeeded.\<close>

definition release_after_call :: "bytes32 \<Rightarrow> nat \<Rightarrow> uint256 \<Rightarrow> state \<Rightarrow> error + state" where
  "release_after_call i k amount s =
     (let ngo = assignedNGO (assets s i); milestone = assetMilestones s i ! k
      in bindE (safe_add (ngoTotalReceived s ngo) amount) (\<lambda>n.
         bindE (safe_add (totalFundsReleased s) amount) (\<lambda>t.
           Inr (emit (FundsReleased i ngo amount (stage milestone))
                 (emit (MilestoneReached i (stage milestone) amount)
                   (s\<lparr>ngoTotalReceived := (ngoTotalReceived s)(ngo := n),
                      totalFundsReleased := t\<rparr>))))))"

text \<open>The body of the loop for index \<open>k\<close>.\<close>

definition milestoneStep :: "env \<Rightarrow> bytes32 \<Rightarrow> nat \<Rightarrow> state \<Rightarrow> error + state" where
  "milestoneStep e i k s =
     (if milestone_due s i k
      then bindE (releaseAmount s i k) (\<lambda>amount.
             if 0 < amount
             then bindE (release_before_call i k amount s) (\<lambda>s1.
                    case call_value e (assignedNGO (assets s1 i)) (unat amount) s1 of
                      None \<Rightarrow> Inl Transfer_failed
                    | Some s2 \<Rightarrow> release_after_call i k amount s2)
             else Inr s)
      else Inr s)"

fun milestoneLoop :: "env \<Rightarrow> bytes32 \<Rightarrow> nat list \<Rightarrow> state \<Rightarrow> error + state" where
  "milestoneLoop e i [] s = Inr s"
| "milestoneLoop e i (k # ks) s = bindE (milestoneStep e i k s) (milestoneLoop e i ks)"

definition checkAndReleaseMilestone :: "env \<Rightarrow> bytes32 \<Rightarrow> state \<Rightarrow> error + state" where
  "checkAndReleaseMilestone e i s = milestoneLoop e i [0 ..< length (assetMilestones s i)] s"

subsection \<open>scanAsset (lines 223-278)\<close>

text \<open>The three anomaly checks, each of which can only raise the flag.\<close>

definition anomalyDetected :: "Asset \<Rightarrow> string \<Rightarrow> Stage \<Rightarrow> bytes32 \<Rightarrow> bool" where
  "anomalyDetected asset newGeoTag newStage photo =
     (let a0 = False;
          a1 = (if stage_index newStage < stage_index (currentStage asset) then True else a0);
          a2 = (if currentGeoTag asset = newGeoTag \<and> newStage \<noteq> currentStage asset
                then True else a1);
          a3 = (if (newStage = Hub \<or> newStage = Beneficiary) \<and> photo = 0 then True else a2)
      in a3)"

definition scanAsset ::
  "env \<Rightarrow> bytes32 \<Rightarrow> string \<Rightarrow> Stage \<Rightarrow> bytes32 \<Rightarrow> string \<Rightarrow> state \<Rightarrow> error + state" where
  "scanAsset e i newGeoTag newStage photo note s =
     (if msg_value e \<noteq> 0 then Inl Non_payable
      else if \<not> hasRole s SCANNER_ROLE (msg_sender e) then Inl (Missing_role SCANNER_ROLE)
      else if \<not> assetExists s i then Inl Asset_not_initialized
      else if isFlagged (assets s i) then Inl Asset_is_flagged
      else
        let anomaly = anomalyDetected (assets s i) newGeoTag newStage photo;
            s1 = (if anomaly
                  then emit (AssetFlagged i (msg_sender e) ''Automated anomaly detection'')
                         (upd_asset i (\<lambda>a. a\<lparr>isFlagged := True\<rparr>) s)
                  else s)
        in bindE (safe_add (scansCount (assets s1 i)) 1) (\<lambda>n.
             let s2 = upd_asset i (\<lambda>a. a\<lparr>scansCount := n, currentGeoTag := newGeoTag,
                        currentStage := newStage\<rparr>) s1;
                 s3 = s2\<lparr>assetHistory := (assetHistory s2)(i := assetHistory s2 i @
                        [\<lparr>timestamp = block_timestamp e, scanner = msg_sender e,
                          geoTag = newGeoTag, scanStage = newStage, photoHash = photo,
                          anomalyFlagged = anomaly, scanNotes = note\<rparr>])\<rparr>;
                 s4 = emit (ScanLogged i (msg_sender e) newStage newGeoTag anomaly) s3
             in checkAndReleaseMilestone e i s4))"

subsection \<open>manualReleaseFunds (lines 343-363)\<close>

text \<open>Line 354, before the call; lines 359-362, after it.\<close>

definition manualRelease_before_call :: "bytes32 \<Rightarrow> uint256 \<Rightarrow> state \<Rightarrow> error + state" where
  "manualRelease_before_call i amount s =
     bindE (safe_add (releasedFunds (assets s i)) amount) (\<lambda>r.
       Inr (upd_asset i (\<lambda>a. a\<lparr>releasedFunds := r\<rparr>) s))"

definition manualRelease_after_call ::
  "bytes32 \<Rightarrow> address \<Rightarrow> uint256 \<Rightarrow> state \<Rightarrow> error + state" where
  "manualRelease_after_call i recipient amount s =
     bindE (safe_add (ngoTotalReceived s recipient) amount) (\<lambda>n.
     bindE (safe_add (totalFundsReleased s) amount) (\<lambda>t.
       Inr (emit (FundsReleased i recipient amount (currentStage (assets s i)))
             (s\<lparr>ngoTotalReceived := (ngoTotalReceived s)(recipient := n),
                totalFundsReleased := t\<rparr>))))"

definition manualReleaseFunds ::
  "env \<Rightarrow> bytes32 \<Rightarrow> address \<Rightarrow> uint256 \<Rightarrow> state \<Rightarrow> error + state" where
  "manualReleaseFunds e i recipient amount s =
     (if msg_value e \<noteq> 0 then Inl Non_payable
      else if \<not> hasRole s AUDITOR_ROLE (msg_sender e) then Inl (Missing_role AUDITOR_ROLE)
      else if \<not> assetExists s i then Inl Asset_not_initialized
      else bindE (safe_sub (allocatedFunds (assets s i)) (releasedFunds (assets s i)))
        (\<lambda>remainingFunds.
           if \<not> amount \<le> remainingFunds then Inl Insufficient_funds
           else if \<not> 0 < amount then Inl Amount_must_be_positive
           else bindE (manualRelease_before_call i amount s) (\<lambda>s1.
                  case call_value e recipient (unat amount) s1 of
                    None \<Rightarrow> Inl Transfer_failed
                  | Some s2 \<Rightarrow> manualRelease_after_call i recipient amount s2)))"

subsection \<open>Governance (lines 370-443)\<close>

definition flagAsset :: "env \<Rightarrow> bytes32 \<Rightarrow> string \<Rightarrow> state \<Rightarrow> error + state" where
  "flagAsset e i reason s =
     (if msg_value e \<noteq> 0 then Inl Non_payable
      else if \<not> hasRole s AUDITOR_ROLE (msg_sender e) then Inl (Missing_role AUDITOR_ROLE)
      else if \<not> assetExists s i then Inl Asset_not_initialized
      else Inr (emit (AssetFlagged i (msg_sender e) reason)
                 (upd_asset i (\<lambda>a. a\<lparr>isFlagged := True\<rparr>) s)))"

definition unflagAsset :: "env \<Rightarrow> bytes32 \<Rightarrow> state \<Rightarrow> error + state" where
  "unflagAsset e i s =
     (if msg_value e \<noteq> 0 then Inl Non_payable
      else if \<not> hasRole s AUDITOR_ROLE (msg_sender e) then Inl (Missing_role AUDITOR_ROLE)
      else if \<not> assetExists s i then Inl Asset_not_initialized
      else Inr (emit (AssetUnflagged i (msg_sender e))
                 (upd_asset i (\<lambda>a. a\<lparr>isFlagged := False\<rparr>) s)))"

text \<open>Lines 404-406; \<open>||\<close> does not evaluate its right operand for a flagged asset.\<close>

definition isEligible :: "env \<Rightarrow> Asset \<Rightarrow> error + bool" where
  "isEligible e asset =
     (if isFlagged asset then Inr True
      else bindE (safe_add (donorTimestamp asset) REFUND_LOCK_PERIOD) (\<lambda>unlock.
             Inr (unlock < block_timestamp e
                  \<and> stage_index (currentStage asset) < stage_index Beneficiary)))"

text \<open>Lines 414-415, before the call to the donor.\<close>

definition requestRefund_before_call :: "bytes32 \<Rightarrow> state \<Rightarrow> state" where
  "requestRefund_before_call i s =
     upd_asset i (\<lambda>a. a\<lparr>allocatedFunds := releasedFunds a\<rparr>)
       (upd_asset i (\<lambda>a. a\<lparr>isRefunded := True\<rparr>) s)"

definition requestRefund :: "env \<Rightarrow> bytes32 \<Rightarrow> state \<Rightarrow> error + state" where
  "requestRefund e i s =
     (if msg_value e \<noteq> 0 then Inl Non_payable
      else if \<not> assetExists s i then Inl Asset_not_initialized
      else if donor (assets s i) \<noteq> msg_sender e then Inl Not_the_donor
      else if isRefunded (assets s i) then Inl Already_refunded
      else bindE (isEligible e (assets s i)) (\<lambda>eligible.
        if \<not> eligible then Inl Not_eligible_for_refund
        else bindE (safe_sub (allocatedFunds (assets s i)) (releasedFunds (assets s i)))
          (\<lambda>refundAmount.
             if \<not> 0 < refundAmount then Inl No_funds_to_refund
             else let s1 = requestRefund_before_call i s
                  in case call_value e (donor (assets s1 i)) (unat refundAmount) s1 of
                       None \<Rightarrow> Inl Refund_transfer_failed
                     | Some s2 \<Rightarrow> Inr (emit (Refunded i (msg_sender e) refundAmount) s2))))"

definition addScanner :: "env \<Rightarrow> address \<Rightarrow> state \<Rightarrow> error + state" where
  "addScanner e a s =
     (if msg_value e \<noteq> 0 then Inl Non_payable
      else if \<not> hasRole s ADMIN_ROLE (msg_sender e) then Inl (Missing_role ADMIN_ROLE)
      else grantRole e SCANNER_ROLE a s)"

definition addNGO :: "env \<Rightarrow> address \<Rightarrow> state \<Rightarrow> error + state" where
  "addNGO e a s =
     (if msg_value e \<noteq> 0 then Inl Non_payable
      else if \<not> hasRole s ADMIN_ROLE (msg_sender e) then Inl (Missing_role ADMIN_ROLE)
      else grantRole e NGO_ROLE a s)"

definition updateMinScans :: "env \<Rightarrow> uint256 \<Rightarrow> state \<Rightarrow> error + state" where
  "updateMinScans e newMin s =
     (if msg_value e \<noteq> 0 then Inl Non_payable
      else if \<not> hasRole s ADMIN_ROLE (msg_sender e) then Inl (Missing_role ADMIN_ROLE)
      else if \<not> 0 < newMin then Inl Must_be_positive
      else Inr (s\<lparr>minScansForFirstPayout := newMin\<rparr>))"

subsection \<open>getAssetProgress (lines 483-498)\<close>

definition getAssetProgress :: "state \<Rightarrow> bytes32 \<Rightarrow> error + (uint256 \<times> uint256)" where
  "getAssetProgress s i =
     (if \<not> assetExists s i then Inl Asset_not_initialized
      else
        let asset = assets s i
        in bindE (safe_mul (of_nat (stage_index (currentStage asset))) 100) (\<lambda>p.
           bindE (safe_div p (of_nat (stage_index Beneficiary))) (\<lambda>progressPercentage.
           bindE (safe_mul (releasedFunds asset) 100) (\<lambda>r.
           bindE (safe_div r (allocatedFunds asset)) (\<lambda>fundsReleasedPercentage.
             Inr (progressPercentage, fundsReleasedPercentage))))))"

subsection \<open>emergencyWithdraw (lines 526-536)\<close>

definition emergencyWithdraw :: "env \<Rightarrow> address \<Rightarrow> state \<Rightarrow> error + state" where
  "emergencyWithdraw e recipient s =
     (if msg_value e \<noteq> 0 then Inl Non_payable
      else if \<not> hasRole s DEFAULT_ADMIN_ROLE (msg_sender e) then Inl (Missing_role DEFAULT_ADMIN_ROLE)
      else if recipient = 0 then Inl Invalid_recipient
      else if \<not> 0 < balance s then Inl No_balance
      else case call_value e recipient (balance s) s of
             None \<Rightarrow> Inl Withdrawal_failed
           | Some s1 \<Rightarrow> Inr s1)"

subsection \<open>Transactions and reachable states\<close>

text \<open>The state-changing external functions of the contract. \<open>receive\<close> and
  \<open>fallback\<close> always revert and the remaining functions are views, so none of them
  changes a state.\<close>

datatype call =
    InitAsset bytes32 string address string
  | ScanAsset bytes32 string Stage bytes32 string
  | ManualReleaseFunds bytes32 address uint256
  | FlagAsset bytes32 string
  | UnflagAsset bytes32
  | RequestRefund bytes32
  | AddScanner address
  | AddNGO address
  | UpdateMinScans uint256
  | EmergencyWithdraw address
  | GrantRole role address
  | RevokeRole role address
  | RenounceRole role address

fun exec :: "env \<Rightarrow> call \<Rightarrow> state \<Rightarrow> error + state" where
  "exec e (InitAsset i d ngo g) s = initAsset e i d ngo g s"
| "exec e (ScanAsset i g st h n) s = scanAsset e i g st h n s"
| "exec e (ManualReleaseFunds i r a) s = manualReleaseFunds e i r a s"
| "exec e (FlagAsset i r) s = flagAsset e i r s"
| "exec e (UnflagAsset i) s = unflagAsset e i s"
| "exec e (RequestRefund i) s = requestRefund e i s"
| "exec e (AddScanner a) s = addScanner e a s"
| "exec e (AddNGO a) s = addNGO e a s"
| "exec e (UpdateMinScans n) s = updateMinScans e n s"
| "exec e (EmergencyWithdraw r) s = emergencyWithdraw e r s"
| "exec e (GrantRole r a) s = grantRole e r a s"
| "exec e (RevokeRole r a) s = revokeRole e r a s"
| "exec e (RenounceRole r a) s = renounceRole e r a s"

text \<open>The states the contract can be in: the one its constructor leaves, and every state
  a successful transaction leads to. The sender of a transaction is never the zero
  address.\<close>

inductive reachable :: "state \<Rightarrow> bool" where
  init: "constructor admin auditor = Inr s \<Longrightarrow> reachable s"
| step: "reachable s \<Longrightarrow> msg_sender e \<noteq> 0 \<Longrightarrow> exec e c s = Inr s' \<Longrightarrow> reachable s'"

text \<open>A sequence of transactions, stopping at the first revert.\<close>

fun run :: "(env \<times> call) list \<Rightarrow> state \<Rightarrow> error + state" where
  "run [] s = Inr s"
| "run ((e, c) # cs) s = bindE (exec e c s) (run cs)"

subsection \<open>Observations used in the properties\<close>

text \<open>The accounting facts that hold of every asset record in every reachable state.\<close>

definition funds_ok :: "Asset \<Rightarrow> bool" where
  "funds_ok a = (releasedFunds a \<le> allocatedFunds a
     \<and> (isRefunded a \<longrightarrow> allocatedFunds a = releasedFunds a)
     \<and> (donor a = 0 \<longrightarrow> releasedFunds a = 0 \<and> \<not> isRefunded a)
     \<and> (donor a \<noteq> 0 \<and> \<not> isRefunded a \<longrightarrow> 0 < allocatedFunds a))"

text \<open>The value an asset still holds in escrow.\<close>

definition escrow :: "state \<Rightarrow> bytes32 \<Rightarrow> nat" where
  "escrow s i = unat (allocatedFunds (assets s i)) - unat (releasedFunds (assets s i))"





text \<open>Two asset records that differ at most in \<open>releasedFunds\<close>.\<close>

definition same_but_released :: "Asset \<Rightarrow> Asset \<Rightarrow> bool" where
  "same_but_released a b =
     (allocatedFunds a = allocatedFunds b \<and> scansCount a = scansCount b
      \<and> donorTimestamp a = donorTimestamp b \<and> assetDescription a = assetDescription b
      \<and> currentGeoTag a = currentGeoTag b \<and> currentStage a = currentStage b
      \<and> isFlagged a = isFlagged b \<and> isRefunded a = isRefunded b
      \<and> donor a = donor b \<and> assignedNGO a = assignedNGO b)"

text \<open>How the milestone loop for asset \<open>i\<close> may change a state \<open>t\<close>: it leaves other
  assets, the scan history, the roles and the threshold alone, changes \<open>releasedFunds\<close>
  only, and can only set \<open>isReleased\<close>.\<close>

definition loop_frame :: "bytes32 \<Rightarrow> state \<Rightarrow> state \<Rightarrow> bool" where
  "loop_frame i t u =
     ((\<forall>j. j \<noteq> i \<longrightarrow> assets u j = assets t j \<and> assetMilestones u j = assetMilestones t j)
      \<and> same_but_released (assets u i) (assets t i)
      \<and> assetHistory u = assetHistory t \<and> roles u = roles t
      \<and> minScansForFirstPayout u = minScansForFirstPayout t
      \<and> length (assetMilestones u i) = length (assetMilestones t i)
      \<and> (\<forall>k < length (assetMilestones t i).
            stage (assetMilestones u i ! k) = stage (assetMilestones t i ! k)
            \<and> releasePercentage (assetMilestones u i ! k) = releasePercentage (assetMilestones t i ! k)
            \<and> (isReleased (assetMilestones t i ! k) \<longrightarrow> isReleased (assetMilestones u i ! k))))"

text \<open>The state a successful \<open>requestRefund\<close> leaves.\<close>

definition refund_result :: "env \<Rightarrow> bytes32 \<Rightarrow> state \<Rightarrow> state" where
  "refund_result e i s =
     s\<lparr>assets := (assets s)(i := (assets s i)\<lparr>isRefunded := True,
          allocatedFunds := releasedFunds (assets s i)\<rparr>),
       balance := balance s - escrow s i,
       sent := sent s @ [(msg_sender e, escrow s i)],
       events := events s @ [Refunded i (msg_sender e)
          (allocatedFunds (assets s i) - releasedFunds (assets s i))]\<rparr>"

subsection \<open>A scenario\<close>

text \<open>Address 1 deploys the contract as admin with auditor 2 and registers NGO 3 and
  scanner 4; donor 5 funds an asset. The states below are the ones the transactions of
  this scenario lead to, as the transition lemmas of the next section show.\<close>

definition tx :: "address \<Rightarrow> uint256 \<Rightarrow> uint256 \<Rightarrow> env" where
  "tx a v t = \<lparr>msg_sender = a, msg_value = v, block_timestamp = t, accepts = (\<lambda>r. True)\<rparr>"

text \<open>A call without value whose sender's payments are refused by every recipient.\<close>

definition rejecting :: "address \<Rightarrow> uint256 \<Rightarrow> env" where
  "rejecting a t = \<lparr>msg_sender = a, msg_value = 0, block_timestamp = t, accepts = (\<lambda>r. False)\<rparr>"

definition scenario_roles :: "role \<Rightarrow> address \<Rightarrow> bool" where
  "scenario_roles =
     (\<lambda>r a. False)
     (DEFAULT_ADMIN_ROLE := (\<lambda>a. False)(1 := True), ADMIN_ROLE := (\<lambda>a. False)(1 := True),
      AUDITOR_ROLE := (\<lambda>a. False)(2 := True), NGO_ROLE := (\<lambda>a. False)(3 := True),
      SCANNER_ROLE := (\<lambda>a. False)(4 := True))"

definition deployed :: state where
  "deployed = constructor_state 1 2"

text \<open>The admin has registered NGO 3 and scanner 4.\<close>

definition registered :: state where
  "registered =
  \<lparr>roles = scenario_roles,
     minScansForFirstPayout = 2,
     assets = (\<lambda>i. empty_asset),
     assetHistory = (\<lambda>i. []), assetMilestones = (\<lambda>i. []), donorTotalContributions = (\<lambda>a. 0),
     ngoTotalReceived = (\<lambda>a. 0), donorAssets = (\<lambda>a. []), totalAssetsTracked = 0,
     totalFundsAllocated = 0, totalFundsReleased = 0, balance = 0, sent = [], events = []\<rparr>"

text \<open>Donor 5 has funded asset 7 with 1000 at time 100.\<close>

definition created :: state where
  "created =
  \<lparr>roles = scenario_roles,
     minScansForFirstPayout = 2,
     assets = (\<lambda>i. empty_asset)
       (7 := \<lparr>allocatedFunds = 1000, releasedFunds = 0, scansCount = 1, donorTimestamp = 100,
                assetDescription = ''1000 food packets'', currentGeoTag = ''Depot'',
                currentStage = Warehouse, isFlagged = False, isRefunded = False, donor = 5,
                assignedNGO = 3\<rparr>),
     assetHistory =
       (\<lambda>i. [])
       (7 := [\<lparr>timestamp = 100, scanner = 5, geoTag = ''Depot'', scanStage = Warehouse,
                 photoHash = 0, anomalyFlagged = False, scanNotes = ''Asset initialized''\<rparr>]),
     assetMilestones =
       (\<lambda>i. [])
       (7 := [\<lparr>stage = Hub, releasePercentage = 40, isReleased = False\<rparr>,
              \<lparr>stage = Beneficiary, releasePercentage = 60, isReleased = False\<rparr>]),
     donorTotalContributions = (\<lambda>a. 0)(5 := 1000), ngoTotalReceived = (\<lambda>a. 0),
     donorAssets = (\<lambda>a. [])(5 := [7]), totalAssetsTracked = 1, totalFundsAllocated = 1000,
     totalFundsReleased = 0, balance = 1000, sent = [],
     events = [AssetInitialized 7 5 3 1000 ''1000 food packets'']\<rparr>"

text \<open>Scanner 4 has scanned asset 7 at the hub: 400 went to the NGO.\<close>

definition at_hub :: state where
  "at_hub =
  \<lparr>roles = scenario_roles,
     minScansForFirstPayout = 2,
     assets = (\<lambda>i. empty_asset)
       (7 := \<lparr>allocatedFunds = 1000, releasedFunds = 400, scansCount = 2, donorTimestamp = 100,
                assetDescription = ''1000 food packets'', currentGeoTag = ''Hub'',
                currentStage = Hub, isFlagged = False, isRefunded = False, donor = 5,
                assignedNGO = 3\<rparr>),
     assetHistory =
       (\<lambda>i. [])
       (7 := [\<lparr>timestamp = 100, scanner = 5, geoTag = ''Depot'', scanStage = Warehouse,
                 photoHash = 0, anomalyFlagged = False, scanNotes = ''Asset initialized''\<rparr>,
              \<lparr>timestamp = 200, scanner = 4, geoTag = ''Hub'', scanStage = Hub, photoHash = 9,
                 anomalyFlagged = False, scanNotes = ''arrived''\<rparr>]),
     assetMilestones =
       (\<lambda>i. [])
       (7 := [\<lparr>stage = Hub, releasePercentage = 40, isReleased = True\<rparr>,
              \<lparr>stage = Beneficiary, releasePercentage = 60, isReleased = False\<rparr>]),
     donorTotalContributions = (\<lambda>a. 0)(5 := 1000), ngoTotalReceived = (\<lambda>a. 0)(3 := 400),
     donorAssets = (\<lambda>a. [])(5 := [7]), totalAssetsTracked = 1, totalFundsAllocated = 1000,
     totalFundsReleased = 400, balance = 600, sent = [(3, 400)],
     events =
       [AssetInitialized 7 5 3 1000 ''1000 food packets'', ScanLogged 7 4 Hub ''Hub'' False,
        MilestoneReached 7 Hub 400, FundsReleased 7 3 400 Hub]\<rparr>"

text \<open>Asset 7 has been scanned at the beneficiary: the remaining 600 went to the NGO.\<close>

definition delivered :: state where
  "delivered =
  \<lparr>roles = scenario_roles,
     minScansForFirstPayout = 2,
     assets = (\<lambda>i. empty_asset)
       (7 := \<lparr>allocatedFunds = 1000, releasedFunds = 1000, scansCount = 3, donorTimestamp = 100,
                assetDescription = ''1000 food packets'', currentGeoTag = ''Village'',
                currentStage = Beneficiary, isFlagged = False, isRefunded = False, donor = 5,
                assignedNGO = 3\<rparr>),
     assetHistory =
       (\<lambda>i. [])
       (7 := [\<lparr>timestamp = 100, scanner = 5, geoTag = ''Depot'', scanStage = Warehouse,
                 photoHash = 0, anomalyFlagged = False, scanNotes = ''Asset initialized''\<rparr>,
              \<lparr>timestamp = 200, scanner = 4, geoTag = ''Hub'', scanStage = Hub, photoHash = 9,
                 anomalyFlagged = False, scanNotes = ''arrived''\<rparr>,
              \<lparr>timestamp = 300, scanner = 4, geoTag = ''Village'', scanStage = Beneficiary,
                 photoHash = 9, anomalyFlagged = False, scanNotes = ''handed over''\<rparr>]),
     assetMilestones =
       (\<lambda>i. [])
       (7 := [\<lparr>stage = Hub, releasePercentage = 40, isReleased = True\<rparr>,
              \<lparr>stage = Beneficiary, releasePercentage = 60, isReleased = True\<rparr>]),
     donorTotalContributions = (\<lambda>a. 0)(5 := 1000), ngoTotalReceived = (\<lambda>a. 0)(3 := 1000),
     donorAssets = (\<lambda>a. [])(5 := [7]), totalAssetsTracked = 1, totalFundsAllocated = 1000,
     totalFundsReleased = 1000, balance = 0, sent = [(3, 400), (3, 600)],
     events =
       [AssetInitialized 7 5 3 1000 ''1000 food packets'', ScanLogged 7 4 Hub ''Hub'' False,
        MilestoneReached 7 Hub 400, FundsReleased 7 3 400 Hub,
        ScanLogged 7 4 Beneficiary ''Village'' False, MilestoneReached 7 Beneficiary 600,
        FundsReleased 7 3 600 Beneficiary]\<rparr>"

text \<open>The auditor has flagged the freshly created asset 7.\<close>

definition flagged :: state where
  "flagged =
  \<lparr>roles = scenario_roles,
     minScansForFirstPayout = 2,
     assets = (\<lambda>i. empty_asset)
       (7 := \<lparr>allocatedFunds = 1000, releasedFunds = 0, scansCount = 1, donorTimestamp = 100,
                assetDescription = ''1000 food packets'', currentGeoTag = ''Depot'',
                currentStage = Warehouse, isFlagged = True, isRefunded = False, donor = 5,
                assignedNGO = 3\<rparr>),
     assetHistory =
       (\<lambda>i. [])
       (7 := [\<lparr>timestamp = 100, scanner = 5, geoTag = ''Depot'', scanStage = Warehouse,
                 photoHash = 0, anomalyFlagged = False, scanNotes = ''Asset initialized''\<rparr>]),
     assetMilestones =
       (\<lambda>i. [])
       (7 := [\<lparr>stage = Hub, releasePercentage = 40, isReleased = False\<rparr>,
              \<lparr>stage = Beneficiary, releasePercentage = 60, isReleased = False\<rparr>]),
     donorTotalContributions = (\<lambda>a. 0)(5 := 1000), ngoTotalReceived = (\<lambda>a. 0),
     donorAssets = (\<lambda>a. [])(5 := [7]), totalAssetsTracked = 1, totalFundsAllocated = 1000,
     totalFundsReleased = 0, balance = 1000, sent = [],
     events = [AssetInitialized 7 5 3 1000 ''1000 food packets'', AssetFlagged 7 2 ''audit'']\<rparr>"

text \<open>The donor has taken the whole 1000 back from the flagged asset.\<close>

definition refunded_early :: state where
  "refunded_early =
  \<lparr>roles = scenario_roles,
     minScansForFirstPayout = 2,
     assets = (\<lambda>i. empty_asset)
       (7 := \<lparr>allocatedFunds = 0, releasedFunds = 0, scansCount = 1, donorTimestamp = 100,
                assetDescription = ''1000 food packets'', currentGeoTag = ''Depot'',
                currentStage = Warehouse, isFlagged = True, isRefunded = True, donor = 5,
                assignedNGO = 3\<rparr>),
     assetHistory =
       (\<lambda>i. [])
       (7 := [\<lparr>timestamp = 100, scanner = 5, geoTag = ''Depot'', scanStage = Warehouse,
                 photoHash = 0, anomalyFlagged = False, scanNotes = ''Asset initialized''\<rparr>]),
     assetMilestones =
       (\<lambda>i. [])
       (7 := [\<lparr>stage = Hub, releasePercentage = 40, isReleased = False\<rparr>,
              \<lparr>stage = Beneficiary, releasePercentage = 60, isReleased = False\<rparr>]),
     donorTotalContributions = (\<lambda>a. 0)(5 := 1000), ngoTotalReceived = (\<lambda>a. 0),
     donorAssets = (\<lambda>a. [])(5 := [7]), totalAssetsTracked = 1, totalFundsAllocated = 1000,
     totalFundsReleased = 0, balance = 0, sent = [(5, 1000)],
     events =
       [AssetInitialized 7 5 3 1000 ''1000 food packets'', AssetFlagged 7 2 ''audit'',
        Refunded 7 5 1000]\<rparr>"

text \<open>After the lock period the donor has taken the remaining 600 back at the hub.\<close>

definition refunded_at_hub :: state where
  "refunded_at_hub =
  \<lparr>roles = scenario_roles,
     minScansForFirstPayout = 2,
     assets = (\<lambda>i. empty_asset)
       (7 := \<lparr>allocatedFunds = 400, releasedFunds = 400, scansCount = 2, donorTimestamp = 100,
                assetDescription = ''1000 food packets'', currentGeoTag = ''Hub'',
                currentStage = Hub, isFlagged = False, isRefunded = True, donor = 5,
                assignedNGO = 3\<rparr>),
     assetHistory =
       (\<lambda>i. [])
       (7 := [\<lparr>timestamp = 100, scanner = 5, geoTag = ''Depot'', scanStage = Warehouse,
                 photoHash = 0, anomalyFlagged = False, scanNotes = ''Asset initialized''\<rparr>,
              \<lparr>timestamp = 200, scanner = 4, geoTag = ''Hub'', scanStage = Hub, photoHash = 9,
                 anomalyFlagged = False, scanNotes = ''arrived''\<rparr>]),
     assetMilestones =
       (\<lambda>i. [])
       (7 := [\<lparr>stage = Hub, releasePercentage = 40, isReleased = True\<rparr>,
              \<lparr>stage = Beneficiary, releasePercentage = 60, isReleased = False\<rparr>]),
     donorTotalContributions = (\<lambda>a. 0)(5 := 1000), ngoTotalReceived = (\<lambda>a. 0)(3 := 400),
     donorAssets = (\<lambda>a. [])(5 := [7]), totalAssetsTracked = 1, totalFundsAllocated = 1000,
     totalFundsReleased = 400, balance = 0, sent = [(3, 400), (5, 600)],
     events =
       [AssetInitialized 7 5 3 1000 ''1000 food packets'', ScanLogged 7 4 Hub ''Hub'' False,
        MilestoneReached 7 Hub 400, FundsReleased 7 3 400 Hub, Refunded 7 5 600]\<rparr>"

text \<open>The refunded asset has been scanned at the beneficiary.\<close>

definition scanned_after_refund :: state where
  "scanned_after_refund =
  \<lparr>roles = scenario_roles,
     minScansForFirstPayout = 2,
     assets = (\<lambda>i. empty_asset)
       (7 := \<lparr>allocatedFunds = 400, releasedFunds = 400, scansCount = 3, donorTimestamp = 100,
                assetDescription = ''1000 food packets'', currentGeoTag = ''Village'',
                currentStage = Beneficiary, isFlagged = False, isRefunded = True, donor = 5,
                assignedNGO = 3\<rparr>),
     assetHistory =
       (\<lambda>i. [])
       (7 := [\<lparr>timestamp = 100, scanner = 5, geoTag = ''Depot'', scanStage = Warehouse,
                 photoHash = 0, anomalyFlagged = False, scanNotes = ''Asset initialized''\<rparr>,
              \<lparr>timestamp = 200, scanner = 4, geoTag = ''Hub'', scanStage = Hub, photoHash = 9,
                 anomalyFlagged = False, scanNotes = ''arrived''\<rparr>,
              \<lparr>timestamp = 2592200, scanner = 4, geoTag = ''Village'', scanStage = Beneficiary,
                 photoHash = 9, anomalyFlagged = False, scanNotes = ''late''\<rparr>]),
     assetMilestones =
       (\<lambda>i. [])
       (7 := [\<lparr>stage = Hub, releasePercentage = 40, isReleased = True\<rparr>,
              \<lparr>stage = Beneficiary, releasePercentage = 60, isReleased = False\<rparr>]),
     donorTotalContributions = (\<lambda>a. 0)(5 := 1000), ngoTotalReceived = (\<lambda>a. 0)(3 := 400),
     donorAssets = (\<lambda>a. [])(5 := [7]), totalAssetsTracked = 1, totalFundsAllocated = 1000,
     totalFundsReleased = 400, balance = 0, sent = [(3, 400), (5, 600)],
     events =
       [AssetInitialized 7 5 3 1000 ''1000 food packets'', ScanLogged 7 4 Hub ''Hub'' False,
        MilestoneReached 7 Hub 400, FundsReleased 7 3 400 Hub, Refunded 7 5 600,
        ScanLogged 7 4 Beneficiary ''Village'' False]\<rparr>"

text \<open>From the hub, asset 7 has been scanned at the earlier stage Transport.\<close>

definition regressed :: state where
  "regressed =
  \<lparr>roles = scenario_roles,
     minScansForFirstPayout = 2,
     assets = (\<lambda>i. empty_asset)
       (7 := \<lparr>allocatedFunds = 1000, releasedFunds = 400, scansCount = 3, donorTimestamp = 100,
                assetDescription = ''1000 food packets'', currentGeoTag = ''Road'',
                currentStage = Transport, isFlagged = True, isRefunded = False, donor = 5,
                assignedNGO = 3\<rparr>),
     assetHistory =
       (\<lambda>i. [])
       (7 := [\<lparr>timestamp = 100, scanner = 5, geoTag = ''Depot'', scanStage = Warehouse,
                 photoHash = 0, anomalyFlagged = False, scanNotes = ''Asset initialized''\<rparr>,
              \<lparr>timestamp = 200, scanner = 4, geoTag = ''Hub'', scanStage = Hub, photoHash = 9,
                 anomalyFlagged = False, scanNotes = ''arrived''\<rparr>,
              \<lparr>timestamp = 250, scanner = 4, geoTag = ''Road'', scanStage = Transport,
                 photoHash = 9, anomalyFlagged = True, scanNotes = ''sent back''\<rparr>]),
     assetMilestones =
       (\<lambda>i. [])
       (7 := [\<lparr>stage = Hub, releasePercentage = 40, isReleased = True\<rparr>,
              \<lparr>stage = Beneficiary, releasePercentage = 60, isReleased = False\<rparr>]),
     donorTotalContributions = (\<lambda>a. 0)(5 := 1000), ngoTotalReceived = (\<lambda>a. 0)(3 := 400),
     donorAssets = (\<lambda>a. [])(5 := [7]), totalAssetsTracked = 1, totalFundsAllocated = 1000,
     totalFundsReleased = 400, balance = 600, sent = [(3, 400)],
     events =
       [AssetInitialized 7 5 3 1000 ''1000 food packets'', ScanLogged 7 4 Hub ''Hub'' False,
        MilestoneReached 7 Hub 400, FundsReleased 7 3 400 Hub,
        AssetFlagged 7 4 ''Automated anomaly detection'', ScanLogged 7 4 Transport ''Road'' True]\<rparr>"

text \<open>The admin has withdrawn the balance of the contract to address 6.\<close>

definition drained :: state where
  "drained =
  \<lparr>roles = scenario_roles,
     minScansForFirstPayout = 2,
     assets = (\<lambda>i. empty_asset)
       (7 := \<lparr>allocatedFunds = 1000, releasedFunds = 0, scansCount = 1, donorTimestamp = 100,
                assetDescription = ''1000 food packets'', currentGeoTag = ''Depot'',
                currentStage = Warehouse, isFlagged = False, isRefunded = False, donor = 5,
                assignedNGO = 3\<rparr>),
     assetHistory =
       (\<lambda>i. [])
       (7 := [\<lparr>timestamp = 100, scanner = 5, geoTag = ''Depot'', scanStage = Warehouse,
                 photoHash = 0, anomalyFlagged = False, scanNotes = ''Asset initialized''\<rparr>]),
     assetMilestones =
       (\<lambda>i. [])
       (7 := [\<lparr>stage = Hub, releasePercentage = 40, isReleased = False\<rparr>,
              \<lparr>stage = Beneficiary, releasePercentage = 60, isReleased = False\<rparr>]),
     donorTotalContributions = (\<lambda>a. 0)(5 := 1000), ngoTotalReceived = (\<lambda>a. 0),
     donorAssets = (\<lambda>a. [])(5 := [7]), totalAssetsTracked = 1, totalFundsAllocated = 1000,
     totalFundsReleased = 0, balance = 0, sent = [(6, 1000)],
     events = [AssetInitialized 7 5 3 1000 ''1000 food packets'']\<rparr>"


text \<open>Donor 5 has funded asset 8 with 3 instead.\<close>

definition small_created :: state where
  "small_created =
  \<lparr>roles = scenario_roles,
     minScansForFirstPayout = 2,
     assets = (\<lambda>i. empty_asset)
       (8 := \<lparr>allocatedFunds = 3, releasedFunds = 0, scansCount = 1, donorTimestamp = 100,
                assetDescription = ''3 blankets'', currentGeoTag = ''Depot'',
                currentStage = Warehouse, isFlagged = False, isRefunded = False, donor = 5,
                assignedNGO = 3\<rparr>),
     assetHistory =
       (\<lambda>i. [])
       (8 := [\<lparr>timestamp = 100, scanner = 5, geoTag = ''Depot'', scanStage = Warehouse,
                 photoHash = 0, anomalyFlagged = False, scanNotes = ''Asset initialized''\<rparr>]),
     assetMilestones =
       (\<lambda>i. [])
       (8 := [\<lparr>stage = Hub, releasePercentage = 40, isReleased = False\<rparr>,
              \<lparr>stage = Beneficiary, releasePercentage = 60, isReleased = False\<rparr>]),
     donorTotalContributions = (\<lambda>a. 0)(5 := 3), ngoTotalReceived = (\<lambda>a. 0),
     donorAssets = (\<lambda>a. [])(5 := [8]), totalAssetsTracked = 1, totalFundsAllocated = 3,
     totalFundsReleased = 0, balance = 3, sent = [],
     events = [AssetInitialized 8 5 3 3 ''3 blankets'']\<rparr>"

text \<open>Asset 8 has been scanned at the hub.\<close>

definition small_at_hub :: state where
  "small_at_hub =
  \<lparr>roles = scenario_roles,
     minScansForFirstPayout = 2,
     assets = (\<lambda>i. empty_asset)
       (8 := \<lparr>allocatedFunds = 3, releasedFunds = 1, scansCount = 2, donorTimestamp = 100,
                assetDescription = ''3 blankets'', currentGeoTag = ''Hub'', currentStage = Hub,
                isFlagged = False, isRefunded = False, donor = 5, assignedNGO = 3\<rparr>),
     assetHistory =
       (\<lambda>i. [])
       (8 := [\<lparr>timestamp = 100, scanner = 5, geoTag = ''Depot'', scanStage = Warehouse,
                 photoHash = 0, anomalyFlagged = False, scanNotes = ''Asset initialized''\<rparr>,
              \<lparr>timestamp = 200, scanner = 4, geoTag = ''Hub'', scanStage = Hub, photoHash = 9,
                 anomalyFlagged = False, scanNotes = ''arrived''\<rparr>]),
     assetMilestones =
       (\<lambda>i. [])
       (8 := [\<lparr>stage = Hub, releasePercentage = 40, isReleased = True\<rparr>,
              \<lparr>stage = Beneficiary, releasePercentage = 60, isReleased = False\<rparr>]),
     donorTotalContributions = (\<lambda>a. 0)(5 := 3), ngoTotalReceived = (\<lambda>a. 0)(3 := 1),
     donorAssets = (\<lambda>a. [])(5 := [8]), totalAssetsTracked = 1, totalFundsAllocated = 3,
     totalFundsReleased = 1, balance = 2, sent = [(3, 1)],
     events =
       [AssetInitialized 8 5 3 3 ''3 blankets'', ScanLogged 8 4 Hub ''Hub'' False,
        MilestoneReached 8 Hub 1, FundsReleased 8 3 1 Hub]\<rparr>"

text \<open>Asset 8 has been scanned at the beneficiary.\<close>

definition small_delivered :: state where
  "small_delivered =
  \<lparr>roles = scenario_roles,
     minScansForFirstPayout = 2,
     assets = (\<lambda>i. empty_asset)
       (8 := \<lparr>allocatedFunds = 3, releasedFunds = 2, scansCount = 3, donorTimestamp = 100,
                assetDescription = ''3 blankets'', currentGeoTag = ''Village'',
                currentStage = Beneficiary, isFlagged = False, isRefunded = False, donor = 5,
                assignedNGO = 3\<rparr>),
     assetHistory =
       (\<lambda>i. [])
       (8 := [\<lparr>timestamp = 100, scanner = 5, geoTag = ''Depot'', scanStage = Warehouse,
                 photoHash = 0, anomalyFlagged = False, scanNotes = ''Asset initialized''\<rparr>,
              \<lparr>timestamp = 200, scanner = 4, geoTag = ''Hub'', scanStage = Hub, photoHash = 9,
                 anomalyFlagged = False, scanNotes = ''arrived''\<rparr>,
              \<lparr>timestamp = 300, scanner = 4, geoTag = ''Village'', scanStage = Beneficiary,
                 photoHash = 9, anomalyFlagged = False, scanNotes = ''handed over''\<rparr>]),
     assetMilestones =
       (\<lambda>i. [])
       (8 := [\<lparr>stage = Hub, releasePercentage = 40, isReleased = True\<rparr>,
              \<lparr>stage = Beneficiary, releasePercentage = 60, isReleased = True\<rparr>]),
     donorTotalContributions = (\<lambda>a. 0)(5 := 3), ngoTotalReceived = (\<lambda>a. 0)(3 := 2),
     donorAssets = (\<lambda>a. [])(5 := [8]), totalAssetsTracked = 1, totalFundsAllocated = 3,
     totalFundsReleased = 2, balance = 1, sent = [(3, 1), (3, 1)],
     events =
       [AssetInitialized 8 5 3 3 ''3 blankets'', ScanLogged 8 4 Hub ''Hub'' False,
        MilestoneReached 8 Hub 1, FundsReleased 8 3 1 Hub,
        ScanLogged 8 4 Beneficiary ''Village'' False, MilestoneReached 8 Beneficiary 1,
        FundsReleased 8 3 1 Beneficiary]\<rparr>"




section \<open>Properties\<close>

subsection \<open>Checked arithmetic\<close>

lemma bindE_Inr_iff: "bindE m f = Inr y \<longleftrightarrow> (\<exists>x. m = Inr x \<and> f x = Inr y)"
  by (cases m) (simp_all add: bindE_def)

lemma bindE_Inr [simp]: "bindE (Inr x) f = f x"
  by (simp add: bindE_def)

lemma bindE_Inl [simp]: "bindE (Inl x) f = Inl x"
  by (simp add: bindE_def)

lemma safe_add_Inr: "safe_add a b = Inr c \<longleftrightarrow> unat a + unat b < 2 ^ 256 \<and> c = a + b"
  by (auto simp: safe_add_def)

lemma safe_add_unat: "safe_add a b = Inr c \<Longrightarrow> unat c = unat a + unat b"
  by (auto simp: safe_add_def unat_word_ariths split: if_splits)

lemma safe_sub_Inr: "safe_sub a b = Inr c \<longleftrightarrow> b \<le> a \<and> c = a - b"
  by (auto simp: safe_sub_def)

lemma safe_sub_unat: "safe_sub a b = Inr c \<Longrightarrow> unat c = unat a - unat b \<and> unat b \<le> unat a"
  by (auto simp: safe_sub_def unat_sub word_le_nat_alt split: if_splits)



lemma releaseAmount_bound:
  assumes "releaseAmount s i k = Inr amount"
    and "releasedFunds (assets s i) \<le> allocatedFunds (assets s i)"
  shows "unat (releasedFunds (assets s i)) + unat amount \<le> unat (allocatedFunds (assets s i))"
proof -
  let ?a = "assets s i"
  from assms(1) obtain nominal total where
    t: "safe_add (releasedFunds ?a) nominal = Inr total" and
    r: "(if allocatedFunds ?a < total then safe_sub (allocatedFunds ?a) (releasedFunds ?a)
         else Inr nominal) = Inr amount"
    by (auto simp: releaseAmount_def Let_def bindE_Inr_iff)
  show ?thesis
  proof (cases "allocatedFunds ?a < total")
    case True
    with r have "safe_sub (allocatedFunds ?a) (releasedFunds ?a) = Inr amount" by simp
    from safe_sub_unat [OF this] show ?thesis by simp
  next
    case False
    with r have "amount = nominal" by simp
    moreover from False have "unat total \<le> unat (allocatedFunds ?a)"
      by (simp add: word_le_nat_alt not_less)
    ultimately show ?thesis using safe_add_unat [OF t] by simp
  qed
qed

lemma releaseAmount_zero:
  assumes "releaseAmount s i k = Inr amount"
    and "releasedFunds (assets s i) = allocatedFunds (assets s i)"
  shows "amount = 0"
proof -
  from assms have "unat (releasedFunds (assets s i)) + unat amount \<le> unat (allocatedFunds (assets s i))"
    by (intro releaseAmount_bound) simp_all
  with assms(2) have "unat amount = 0" by simp
  then show ?thesis by (simp add: unat_eq_0)
qed

lemma milestoneStep_cases [consumes 2, case_names skip pay]:
  assumes "milestoneStep e i k s = Inr s'" and "k < length (assetMilestones s i)"
  obtains "s' = s" and "\<not> milestone_due s i k \<or> releaseAmount s i k = Inr 0"
  | amount where "milestone_due s i k" and "releaseAmount s i k = Inr amount" and "0 < amount"
      and "unat amount \<le> balance s" and "accepts e (assignedNGO (assets s i))"
      and "assets s' = (assets s)(i := (assets s i)\<lparr>releasedFunds :=
             releasedFunds (assets s i) + amount\<rparr>)"
      and "assetMilestones s' = (assetMilestones s)(i :=
             (assetMilestones s i)[k := (assetMilestones s i ! k)\<lparr>isReleased := True\<rparr>])"
      and "events s' = events s @ [MilestoneReached i (stage (assetMilestones s i ! k)) amount,
             FundsReleased i (assignedNGO (assets s i)) amount (stage (assetMilestones s i ! k))]"
      and "sent s' = sent s @ [(assignedNGO (assets s i), unat amount)]"
      and "balance s' = balance s - unat amount"
      and "ngoTotalReceived s' = (ngoTotalReceived s)(assignedNGO (assets s i) :=
             ngoTotalReceived s (assignedNGO (assets s i)) + amount)"
      and "totalFundsReleased s' = totalFundsReleased s + amount"
      and "roles s' = roles s" and "minScansForFirstPayout s' = minScansForFirstPayout s"
      and "assetHistory s' = assetHistory s"
proof (cases "milestone_due s i k")
  case False
  with assms(1) have "s' = s" by (simp add: milestoneStep_def)
  with False show thesis by (intro that(1)) simp_all
next
  case True
  with assms(1) obtain amount where ra: "releaseAmount s i k = Inr amount"
    and r: "(if 0 < amount
             then bindE (release_before_call i k amount s) (\<lambda>s1.
                    case call_value e (assignedNGO (assets s1 i)) (unat amount) s1 of
                      None \<Rightarrow> Inl Transfer_failed
                    | Some s2 \<Rightarrow> release_after_call i k amount s2)
             else Inr s) = Inr s'"
    by (auto simp: milestoneStep_def bindE_Inr_iff)
  show thesis
  proof (cases "0 < amount")
    case False
    then have "amount = 0" by (simp add: word_neq_0_conv [symmetric])
    moreover from False r have "s' = s" by simp
    ultimately show thesis using ra by (intro that(1)) simp_all
  next
    case pos: True
    with r assms(2) show thesis
      by (intro that(2) [of amount] True ra)
        (auto simp: bindE_Inr_iff release_before_call_def release_after_call_def
          call_value_def upd_asset_def emit_def safe_add_Inr Let_def
          split: if_splits option.splits)
  qed
qed

lemma word_add_le_unat:
  fixes a b c :: uint256
  assumes "unat a + unat b \<le> unat c"
  shows "a + b \<le> c" and "unat (a + b) = unat a + unat b"
proof -
  have "unat c < 2 ^ LENGTH(256)" by (rule unsigned_less)
  with assms have "unat a + unat b < 2 ^ LENGTH(256)" by linarith
  then show u: "unat (a + b) = unat a + unat b" by (rule unat_add_lem [THEN iffD1])
  with assms show "a + b \<le> c" by (simp add: word_le_nat_alt)
qed

lemma milestoneStep_funds_ok:
  assumes "milestoneStep e i k s = Inr s'" and "k < length (assetMilestones s i)"
    and "donor (assets s i) \<noteq> 0" and "funds_ok (assets s j)"
  shows "funds_ok (assets s' j)"
  using assms(1,2)
proof (cases rule: milestoneStep_cases)
  case skip
  with assms(4) show ?thesis by simp
next
  case (pay amount)
  show ?thesis
  proof (cases "j = i")
    case False with pay(6) assms(4) show ?thesis by simp
  next
    case True
    with assms(4) have ok: "funds_ok (assets s i)" by simp
    then have le: "releasedFunds (assets s i) \<le> allocatedFunds (assets s i)"
      by (simp add: funds_ok_def)
    note b = releaseAmount_bound [OF pay(2) le]
    have nz: "unat amount \<noteq> 0" using pay(3) by (simp add: unat_eq_0)
    have "\<not> isRefunded (assets s i)"
    proof
      assume "isRefunded (assets s i)"
      with ok have "allocatedFunds (assets s i) = releasedFunds (assets s i)"
        by (simp add: funds_ok_def)
      with b nz show False by simp
    qed
    then show ?thesis using ok word_add_le_unat(1) [OF b] True pay(6) assms(3)
      by (simp add: funds_ok_def)
  qed
qed

lemma milestoneStep_frame:
  assumes "milestoneStep e i k s = Inr s'" and "k < length (assetMilestones s i)"
  shows "length (assetMilestones s' i) = length (assetMilestones s i)"
    and "donor (assets s' i) = donor (assets s i)"
    and "j \<noteq> i \<Longrightarrow> assets s' j = assets s j"
    and "j \<noteq> i \<Longrightarrow> assetMilestones s' j = assetMilestones s j"
    and "assetHistory s' = assetHistory s"
    and "roles s' = roles s"
    and "minScansForFirstPayout s' = minScansForFirstPayout s"
  using assms(1,2) by (cases rule: milestoneStep_cases; simp)+

lemma milestoneLoop_invariant:
  assumes "milestoneLoop e i ks s = Inr s'"
    and "\<forall>k\<in>set ks. k < length (assetMilestones s i)"
    and "P s"
    and "\<And>k t t'. P t \<Longrightarrow> k < length (assetMilestones t i) \<Longrightarrow> milestoneStep e i k t = Inr t'
           \<Longrightarrow> P t'"
  shows "P s'"
  using assms(1-3)
proof (induction ks arbitrary: s)
  case Nil
  then show ?case by simp
next
  case (Cons k ks)
  from Cons.prems(1) obtain t where t: "milestoneStep e i k s = Inr t"
    and r: "milestoneLoop e i ks t = Inr s'"
    by (auto simp: bindE_Inr_iff)
  from Cons.prems(2) have k: "k < length (assetMilestones s i)" by simp
  have "P t" using assms(4) [OF Cons.prems(3) k t] .
  moreover have "\<forall>k\<in>set ks. k < length (assetMilestones t i)"
    using Cons.prems(2) milestoneStep_frame(1) [OF t k] by simp
  ultimately show ?case using Cons.IH [OF r] by blast
qed

lemma checkAndReleaseMilestone_invariant:
  assumes "checkAndReleaseMilestone e i s = Inr s'" and "P s"
    and "\<And>k t t'. P t \<Longrightarrow> k < length (assetMilestones t i) \<Longrightarrow> milestoneStep e i k t = Inr t'
           \<Longrightarrow> P t'"
  shows "P s'"
  using assms(1) unfolding checkAndReleaseMilestone_def
  by (rule milestoneLoop_invariant) (use assms(2,3) in auto)

lemma scanAsset_cases [consumes 1]:
  assumes "scanAsset e i g st h n s = Inr s'"
  obtains t where "hasRole s SCANNER_ROLE (msg_sender e)" and "assetExists s i"
    and "\<not> isFlagged (assets s i)"
    and "unat (scansCount (assets s i)) + 1 < 2 ^ 256"
    and "assets t = (assets s)(i := (assets s i)\<lparr>scansCount := scansCount (assets s i) + 1,
           currentGeoTag := g, currentStage := st,
           isFlagged := anomalyDetected (assets s i) g st h\<rparr>)"
    and "assetMilestones t = assetMilestones s"
    and "assetHistory t = (assetHistory s)(i := assetHistory s i @
           [\<lparr>timestamp = block_timestamp e, scanner = msg_sender e, geoTag = g, scanStage = st,
             photoHash = h, anomalyFlagged = anomalyDetected (assets s i) g st h,
             scanNotes = n\<rparr>])"
    and "events t = events s @
           (if anomalyDetected (assets s i) g st h
            then [AssetFlagged i (msg_sender e) ''Automated anomaly detection''] else []) @
           [ScanLogged i (msg_sender e) st g (anomalyDetected (assets s i) g st h)]"
    and "roles t = roles s" and "minScansForFirstPayout t = minScansForFirstPayout s"
    and "balance t = balance s" and "sent t = sent s"
    and "ngoTotalReceived t = ngoTotalReceived s" and "totalFundsReleased t = totalFundsReleased s"
    and "checkAndReleaseMilestone e i t = Inr s'"
proof -
  from assms have v: "msg_value e = 0" and r: "hasRole s SCANNER_ROLE (msg_sender e)"
    and x: "assetExists s i" and f: "\<not> isFlagged (assets s i)"
    by (auto simp: scanAsset_def split: if_splits)
  let ?an = "anomalyDetected (assets s i) g st h"
  let ?s1 = "if ?an then emit (AssetFlagged i (msg_sender e) ''Automated anomaly detection'')
                         (upd_asset i (\<lambda>a. a\<lparr>isFlagged := True\<rparr>) s) else s"
  from assms v r x f obtain c where c: "safe_add (scansCount (assets ?s1 i)) 1 = Inr c"
    and l: "checkAndReleaseMilestone e i
       (emit (ScanLogged i (msg_sender e) st g ?an)
         ((upd_asset i (\<lambda>a. a\<lparr>scansCount := c, currentGeoTag := g, currentStage := st\<rparr>) ?s1)
           \<lparr>assetHistory := (assetHistory (upd_asset i (\<lambda>a. a\<lparr>scansCount := c,
               currentGeoTag := g, currentStage := st\<rparr>) ?s1))(i :=
               assetHistory (upd_asset i (\<lambda>a. a\<lparr>scansCount := c, currentGeoTag := g,
                 currentStage := st\<rparr>) ?s1) i @
               [\<lparr>timestamp = block_timestamp e, scanner = msg_sender e, geoTag = g,
                 scanStage = st, photoHash = h, anomalyFlagged = ?an, scanNotes = n\<rparr>])\<rparr>))
       = Inr s'" (is "checkAndReleaseMilestone e i ?t = _")
    by (simp add: scanAsset_def Let_def bindE_Inr_iff) blast
  have sc: "scansCount (assets ?s1 i) = scansCount (assets s i)"
    by (simp add: emit_def upd_asset_def)
  from c sc have c': "unat (scansCount (assets s i)) + 1 < 2 ^ 256"
    and ceq: "c = scansCount (assets s i) + 1"
    by (simp_all add: safe_add_Inr)
  show thesis
  proof (rule that [of ?t])
    show "assets ?t = (assets s)(i := (assets s i)\<lparr>scansCount := scansCount (assets s i) + 1,
           currentGeoTag := g, currentStage := st, isFlagged := ?an\<rparr>)"
      using f by (auto simp: emit_def upd_asset_def ceq)
  qed (use r x f c' l in \<open>simp_all add: emit_def upd_asset_def\<close>)
qed

lemma scanAsset_funds_ok:
  assumes "scanAsset e i g st h n s = Inr s'" and "funds_ok (assets s j)"
  shows "funds_ok (assets s' j)"
  using assms(1)
proof (cases rule: scanAsset_cases)
  case (1 t)
  have "donor (assets s' i) \<noteq> 0 \<and> funds_ok (assets s' j)"
    using 1(15)
  proof (rule checkAndReleaseMilestone_invariant)
    show "donor (assets t i) \<noteq> 0 \<and> funds_ok (assets t j)"
      using 1(2,5) assms(2) by (cases "j = i") (auto simp: assetExists_def funds_ok_def)
  next
    fix k u u'
    assume "donor (assets u i) \<noteq> 0 \<and> funds_ok (assets u j)"
      and "k < length (assetMilestones u i)" and "milestoneStep e i k u = Inr u'"
    then show "donor (assets u' i) \<noteq> 0 \<and> funds_ok (assets u' j)"
      using milestoneStep_funds_ok [of e i k u u' j] milestoneStep_frame(2) [of e i k u u']
      by simp
  qed
  then show ?thesis ..
qed

lemma initAsset_funds_ok:
  assumes "initAsset e i d ngo g s = Inr s'" and "funds_ok (assets s j)" and "msg_sender e \<noteq> 0"
  shows "funds_ok (assets s' j)"
  using assms
  by (auto simp: initAsset_def Let_def bindE_Inr_iff upd_asset_def emit_def
      setupDefaultMilestones_def funds_ok_def word_neq_0_conv split: if_splits)

lemma manualReleaseFunds_funds_ok:
  assumes "manualReleaseFunds e i r amount s = Inr s'" and "funds_ok (assets s j)"
  shows "funds_ok (assets s' j)"
proof -
  let ?a = "assets s i"
  from assms(1) obtain remaining where x: "assetExists s i"
    and rem: "safe_sub (allocatedFunds ?a) (releasedFunds ?a) = Inr remaining"
    and le: "amount \<le> remaining" and pos: "0 < amount"
    and a': "assets s' = (assets s)(i := ?a\<lparr>releasedFunds := releasedFunds ?a + amount\<rparr>)"
    by (auto simp: manualReleaseFunds_def bindE_Inr_iff manualRelease_before_call_def
        manualRelease_after_call_def call_value_def upd_asset_def emit_def safe_add_Inr
        split: if_splits option.splits)
  show ?thesis
  proof (cases "j = i")
    case False with a' assms(2) show ?thesis by simp
  next
    case True
    from le have "unat amount \<le> unat remaining" by (simp add: word_le_nat_alt)
    with safe_sub_unat [OF rem]
    have b: "unat (releasedFunds ?a) + unat amount \<le> unat (allocatedFunds ?a)"
      by linarith
    have nz: "unat amount \<noteq> 0" using pos by (simp add: unat_eq_0)
    have "\<not> isRefunded ?a"
    proof
      assume "isRefunded ?a"
      with assms(2) True have "allocatedFunds ?a = releasedFunds ?a" by (simp add: funds_ok_def)
      with b nz show False by simp
    qed
    then show ?thesis using assms(2) True a' x word_add_le_unat(1) [OF b]
      by (simp add: funds_ok_def assetExists_def)
  qed
qed

lemma requestRefund_funds_ok:
  assumes "requestRefund e i s = Inr s'" and "funds_ok (assets s j)"
  shows "funds_ok (assets s' j)"
  using assms
  by (auto simp: requestRefund_def bindE_Inr_iff requestRefund_before_call_def Let_def
      call_value_def upd_asset_def emit_def funds_ok_def assetExists_def
      split: if_splits option.splits)

lemma exec_funds_ok:
  assumes "exec e c s = Inr s'" and "funds_ok (assets s j)" and "msg_sender e \<noteq> 0"
  shows "funds_ok (assets s' j)"
proof (cases c)
  case (InitAsset i d ngo g)
  with assms show ?thesis by (simp add: initAsset_funds_ok)
next
  case (ScanAsset i g st h n)
  with assms show ?thesis by (simp add: scanAsset_funds_ok)
next
  case (ManualReleaseFunds i r a)
  with assms show ?thesis by (simp add: manualReleaseFunds_funds_ok)
next
  case (RequestRefund i)
  with assms show ?thesis by (simp add: requestRefund_funds_ok)
next
  case (FlagAsset i r)
  with assms show ?thesis
    by (auto simp: flagAsset_def upd_asset_def emit_def funds_ok_def split: if_splits)
next
  case (UnflagAsset i)
  with assms show ?thesis
    by (auto simp: unflagAsset_def upd_asset_def emit_def funds_ok_def split: if_splits)
next
  case (AddScanner a)
  with assms show ?thesis
    by (auto simp: addScanner_def grantRole_def grant_role_def split: if_splits)
next
  case (AddNGO a)
  with assms show ?thesis
    by (auto simp: addNGO_def grantRole_def grant_role_def split: if_splits)
next
  case (UpdateMinScans n)
  with assms show ?thesis by (auto simp: updateMinScans_def split: if_splits)
next
  case (EmergencyWithdraw r)
  with assms show ?thesis
    by (auto simp: emergencyWithdraw_def call_value_def split: if_splits option.splits)
next
  case (GrantRole r a)
  with assms show ?thesis by (auto simp: grantRole_def grant_role_def split: if_splits)
next
  case (RevokeRole r a)
  with assms show ?thesis by (auto simp: revokeRole_def revoke_role_def split: if_splits)
next
  case (RenounceRole r a)
  with assms show ?thesis by (auto simp: renounceRole_def revoke_role_def split: if_splits)
qed

lemma constructor_assets:
  "constructor admin auditor = Inr s \<Longrightarrow> assets s = (\<lambda>i. empty_asset)"
  by (auto simp: constructor_def constructor_state_def grant_role_def split: if_splits)

lemma reachable_funds_ok: "reachable s \<Longrightarrow> funds_ok (assets s j)"
proof (induction rule: reachable.induct)
  case (init admin auditor s)
  then show ?case by (simp add: constructor_assets funds_ok_def empty_asset_def)
next
  case (step s e c s')
  then show ?case using exec_funds_ok by blast
qed

subsection \<open>What the milestone loop and a scan leave unchanged\<close>

lemma loop_frame_refl: "loop_frame i t t"
  by (simp add: loop_frame_def same_but_released_def)

lemma milestoneStep_loop_frame:
  assumes "milestoneStep e i k u = Inr u'" and "k < length (assetMilestones u i)"
    and "loop_frame i t u"
  shows "loop_frame i t u'"
  using assms(1,2)
proof (cases rule: milestoneStep_cases)
  case skip
  with assms(3) show ?thesis by simp
next
  case (pay amount)
  have "same_but_released (assets u' i) (assets t i)"
    using assms(3) pay(6) by (simp add: loop_frame_def same_but_released_def)
  moreover have "\<forall>j. j \<noteq> i \<longrightarrow> assets u' j = assets t j \<and> assetMilestones u' j = assetMilestones t j"
    using assms(3) pay(6,7) by (simp add: loop_frame_def)
  moreover have "length (assetMilestones u' i) = length (assetMilestones t i)"
    using assms(3) pay(7) by (simp add: loop_frame_def)
  moreover have "stage (assetMilestones u' i ! m) = stage (assetMilestones t i ! m)
      \<and> releasePercentage (assetMilestones u' i ! m) = releasePercentage (assetMilestones t i ! m)
      \<and> (isReleased (assetMilestones t i ! m) \<longrightarrow> isReleased (assetMilestones u' i ! m))"
    if "m < length (assetMilestones t i)" for m
  proof -
    from assms(3) that have old: "stage (assetMilestones u i ! m) = stage (assetMilestones t i ! m)
      \<and> releasePercentage (assetMilestones u i ! m) = releasePercentage (assetMilestones t i ! m)
      \<and> (isReleased (assetMilestones t i ! m) \<longrightarrow> isReleased (assetMilestones u i ! m))"
      by (simp add: loop_frame_def)
    have "assetMilestones u' i ! m =
        (if k = m then (assetMilestones u i ! k)\<lparr>isReleased := True\<rparr> else assetMilestones u i ! m)"
      using pay(7) assms(2) by (simp add: nth_list_update)
    with old show ?thesis by auto
  qed
  ultimately show ?thesis using assms(3) pay(13,14,15)
    by (simp add: loop_frame_def)
qed

lemma checkAndReleaseMilestone_frame:
  assumes "checkAndReleaseMilestone e i t = Inr s'"
  shows "loop_frame i t s'"
  using assms
  by (rule checkAndReleaseMilestone_invariant) (auto intro: loop_frame_refl milestoneStep_loop_frame)

lemma checkAndReleaseMilestone_nothing_left:
  assumes "checkAndReleaseMilestone e i t = Inr s'"
    and "releasedFunds (assets t i) = allocatedFunds (assets t i)"
  shows "s' = t"
  using assms(1)
proof (rule checkAndReleaseMilestone_invariant)
  show "t = t" ..
next
  fix k u u'
  assume u: "u = t" and k: "k < length (assetMilestones u i)"
    and st: "milestoneStep e i k u = Inr u'"
  from st k show "u' = t"
  proof (cases rule: milestoneStep_cases)
    case skip
    with u show ?thesis by simp
  next
    case (pay amount)
    from releaseAmount_zero [OF pay(2)] assms(2) u pay(3) show ?thesis by simp
  qed
qed

lemma scanAsset_loop:
  assumes "scanAsset e i g st h n s = Inr s'"
  obtains t where "assets t = (assets s)(i := (assets s i)\<lparr>scansCount :=
           scansCount (assets s i) + 1, currentGeoTag := g, currentStage := st,
           isFlagged := anomalyDetected (assets s i) g st h\<rparr>)"
    and "assetMilestones t = assetMilestones s"
    and "assetHistory t = (assetHistory s)(i := assetHistory s i @
           [\<lparr>timestamp = block_timestamp e, scanner = msg_sender e, geoTag = g, scanStage = st,
             photoHash = h, anomalyFlagged = anomalyDetected (assets s i) g st h,
             scanNotes = n\<rparr>])"
    and "roles t = roles s" and "minScansForFirstPayout t = minScansForFirstPayout s"
    and "unat (scansCount (assets s i)) + 1 < 2 ^ 256"
    and "loop_frame i t s'"
  using assms
proof (cases rule: scanAsset_cases)
  case (1 t)
  from 1(5,6,7,9,10,4) checkAndReleaseMilestone_frame [OF 1(15)] show ?thesis by (rule that)
qed

lemma scanAsset_effect:
  assumes "scanAsset e i g st h n s = Inr s'"
  shows "scansCount (assets s' i) = scansCount (assets s i) + 1"
    and "unat (scansCount (assets s' i)) = unat (scansCount (assets s i)) + 1"
    and "currentGeoTag (assets s' i) = g" and "currentStage (assets s' i) = st"
    and "isFlagged (assets s' i) = anomalyDetected (assets s i) g st h"
    and "allocatedFunds (assets s' i) = allocatedFunds (assets s i)"
    and "isRefunded (assets s' i) = isRefunded (assets s i)"
    and "donor (assets s' i) = donor (assets s i)"
    and "assignedNGO (assets s' i) = assignedNGO (assets s i)"
    and "j \<noteq> i \<Longrightarrow> assets s' j = assets s j"
    and "j \<noteq> i \<Longrightarrow> assetMilestones s' j = assetMilestones s j"
    and "assetHistory s' = (assetHistory s)(i := assetHistory s i @
           [\<lparr>timestamp = block_timestamp e, scanner = msg_sender e, geoTag = g, scanStage = st,
             photoHash = h, anomalyFlagged = anomalyDetected (assets s i) g st h,
             scanNotes = n\<rparr>])"
    and "length (assetMilestones s' i) = length (assetMilestones s i)"
    and "k < length (assetMilestones s i) \<Longrightarrow>
           stage (assetMilestones s' i ! k) = stage (assetMilestones s i ! k)
           \<and> releasePercentage (assetMilestones s' i ! k) = releasePercentage (assetMilestones s i ! k)
           \<and> (isReleased (assetMilestones s i ! k) \<longrightarrow> isReleased (assetMilestones s' i ! k))"
    and "roles s' = roles s" and "minScansForFirstPayout s' = minScansForFirstPayout s"
proof -
  from assms obtain t where a: "assets t = (assets s)(i := (assets s i)\<lparr>scansCount :=
           scansCount (assets s i) + 1, currentGeoTag := g, currentStage := st,
           isFlagged := anomalyDetected (assets s i) g st h\<rparr>)"
    and m: "assetMilestones t = assetMilestones s"
    and hi: "assetHistory t = (assetHistory s)(i := assetHistory s i @
           [\<lparr>timestamp = block_timestamp e, scanner = msg_sender e, geoTag = g, scanStage = st,
             photoHash = h, anomalyFlagged = anomalyDetected (assets s i) g st h,
             scanNotes = n\<rparr>])"
    and r: "roles t = roles s" and ms: "minScansForFirstPayout t = minScansForFirstPayout s"
    and c: "unat (scansCount (assets s i)) + 1 < 2 ^ 256"
    and f: "loop_frame i t s'"
    by (rule scanAsset_loop)
  note f' = f [unfolded loop_frame_def same_but_released_def]
  from f' a show sc: "scansCount (assets s' i) = scansCount (assets s i) + 1" by simp
  have "unat (scansCount (assets s i)) + unat (1 :: uint256) < 2 ^ LENGTH(256)"
    using c by simp
  then have "unat (scansCount (assets s i) + 1) = unat (scansCount (assets s i)) + unat (1 :: uint256)"
    by (rule unat_add_lem [THEN iffD1])
  with sc show "unat (scansCount (assets s' i)) = unat (scansCount (assets s i)) + 1" by simp
  from f' a show "currentGeoTag (assets s' i) = g" by simp
  from f' a show "currentStage (assets s' i) = st" by simp
  from f' a show "isFlagged (assets s' i) = anomalyDetected (assets s i) g st h" by simp
  from f' a show "allocatedFunds (assets s' i) = allocatedFunds (assets s i)" by simp
  from f' a show "isRefunded (assets s' i) = isRefunded (assets s i)" by simp
  from f' a show "donor (assets s' i) = donor (assets s i)" by simp
  from f' a show "assignedNGO (assets s' i) = assignedNGO (assets s i)" by simp
  from f' a show "j \<noteq> i \<Longrightarrow> assets s' j = assets s j" by simp
  from f' m show "j \<noteq> i \<Longrightarrow> assetMilestones s' j = assetMilestones s j" by simp
  from f' hi show "assetHistory s' = (assetHistory s)(i := assetHistory s i @
           [\<lparr>timestamp = block_timestamp e, scanner = msg_sender e, geoTag = g, scanStage = st,
             photoHash = h, anomalyFlagged = anomalyDetected (assets s i) g st h,
             scanNotes = n\<rparr>])" by simp
  from f' m show "length (assetMilestones s' i) = length (assetMilestones s i)" by simp
  from f' m show "k < length (assetMilestones s i) \<Longrightarrow>
           stage (assetMilestones s' i ! k) = stage (assetMilestones s i ! k)
           \<and> releasePercentage (assetMilestones s' i ! k) = releasePercentage (assetMilestones s i ! k)
           \<and> (isReleased (assetMilestones s i ! k) \<longrightarrow> isReleased (assetMilestones s' i ! k))"
    by simp
  from f' r show "roles s' = roles s" by simp
  from f' ms show "minScansForFirstPayout s' = minScansForFirstPayout s" by simp
qed

lemma scanAsset_refunded:
  assumes "scanAsset e i g st h n s = Inr s'"
    and "releasedFunds (assets s i) = allocatedFunds (assets s i)"
  shows "releasedFunds (assets s' i) = releasedFunds (assets s i)
    \<and> assetMilestones s' i = assetMilestones s i \<and> sent s' = sent s \<and> balance s' = balance s"
  using assms(1)
proof (cases rule: scanAsset_cases)
  case (1 t)
  from 1(5) assms(2) have "releasedFunds (assets t i) = allocatedFunds (assets t i)" by simp
  from checkAndReleaseMilestone_nothing_left [OF 1(15) this] have "s' = t" .
  with 1(5,6,11,12) show ?thesis by simp
qed

text \<open>What a transaction leaves of a refunded asset.\<close>

lemma exec_refunded:
  assumes "exec e c s = Inr s'" and "funds_ok (assets s i)" and "isRefunded (assets s i)"
  shows "releasedFunds (assets s' i) = releasedFunds (assets s i)
    \<and> allocatedFunds (assets s' i) = allocatedFunds (assets s i)
    \<and> isRefunded (assets s' i) \<and> assetMilestones s' i = assetMilestones s i"
proof -
  from assms(2,3) have eq: "releasedFunds (assets s i) = allocatedFunds (assets s i)"
    and d: "donor (assets s i) \<noteq> 0"
    by (auto simp: funds_ok_def)
  show ?thesis
  proof (cases c)
    case (InitAsset j d' ngo g)
    with assms(1,3) d show ?thesis
      by (auto simp: initAsset_def Let_def bindE_Inr_iff upd_asset_def emit_def
          setupDefaultMilestones_def split: if_splits)
  next
    case (ScanAsset j g st h n)
    show ?thesis
    proof (cases "j = i")
      case True
      with ScanAsset assms(1) have sc: "scanAsset e i g st h n s = Inr s'" by simp
      from scanAsset_refunded [OF sc eq] scanAsset_effect(6,7) [OF sc] assms(3)
      show ?thesis by simp
    next
      case False
      with ScanAsset assms(1) have sc: "scanAsset e j g st h n s = Inr s'" by simp
      from scanAsset_effect(10,11) [OF sc, of i] False assms(3) show ?thesis by simp
    qed
  next
    case (ManualReleaseFunds j r a)
    show ?thesis
    proof (cases "j = i")
      case True
      with ManualReleaseFunds assms(1) eq show ?thesis
        by (auto simp: manualReleaseFunds_def bindE_Inr_iff safe_sub_Inr split: if_splits)
    next
      case False
      with ManualReleaseFunds assms(1,3) show ?thesis
        by (auto simp: manualReleaseFunds_def bindE_Inr_iff manualRelease_before_call_def
            manualRelease_after_call_def call_value_def upd_asset_def emit_def
            split: if_splits option.splits)
    qed
  next
    case (RequestRefund j)
    with assms(1,3) show ?thesis
      by (cases "j = i")
        (auto simp: requestRefund_def bindE_Inr_iff requestRefund_before_call_def Let_def
          call_value_def upd_asset_def emit_def split: if_splits option.splits)
  next
    case (FlagAsset j r)
    with assms(1,3) show ?thesis
      by (auto simp: flagAsset_def upd_asset_def emit_def split: if_splits)
  next
    case (UnflagAsset j)
    with assms(1,3) show ?thesis
      by (auto simp: unflagAsset_def upd_asset_def emit_def split: if_splits)
  next
    case (AddScanner a)
    with assms(1,3) show ?thesis
      by (auto simp: addScanner_def grantRole_def grant_role_def split: if_splits)
  next
    case (AddNGO a)
    with assms(1,3) show ?thesis
      by (auto simp: addNGO_def grantRole_def grant_role_def split: if_splits)
  next
    case (UpdateMinScans n)
    with assms(1,3) show ?thesis by (auto simp: updateMinScans_def split: if_splits)
  next
    case (EmergencyWithdraw r)
    with assms(1,3) show ?thesis
      by (auto simp: emergencyWithdraw_def call_value_def split: if_splits option.splits)
  next
    case (GrantRole r a)
    with assms(1,3) show ?thesis by (auto simp: grantRole_def grant_role_def split: if_splits)
  next
    case (RevokeRole r a)
    with assms(1,3) show ?thesis by (auto simp: revokeRole_def revoke_role_def split: if_splits)
  next
    case (RenounceRole r a)
    with assms(1,3) show ?thesis by (auto simp: renounceRole_def revoke_role_def split: if_splits)
  qed
qed

subsection \<open>Sequences of transactions\<close>

lemma reachable_run:
  "reachable s \<Longrightarrow> \<forall>(e, c) \<in> set cs. msg_sender e \<noteq> 0 \<Longrightarrow> run cs s = Inr s' \<Longrightarrow> reachable s'"
proof (induction cs arbitrary: s)
  case Nil
  then show ?case by simp
next
  case (Cons x cs)
  obtain e c where x: "x = (e, c)" by (cases x)
  with Cons.prems(3) obtain t where t: "exec e c s = Inr t" and r: "run cs t = Inr s'"
    by (auto simp: bindE_Inr_iff)
  from Cons.prems(1,2) x t have "reachable t" by (auto intro: reachable.step)
  with Cons.IH r Cons.prems(2) show ?case by auto
qed

lemma run_refunded:
  assumes "reachable s" and "\<forall>(e, c) \<in> set cs. msg_sender e \<noteq> 0" and "run cs s = Inr s'"
    and "isRefunded (assets s i)"
  shows "releasedFunds (assets s' i) = releasedFunds (assets s i)
    \<and> allocatedFunds (assets s' i) = allocatedFunds (assets s i)
    \<and> isRefunded (assets s' i) \<and> assetMilestones s' i = assetMilestones s i"
  using assms
proof (induction cs arbitrary: s)
  case Nil
  then show ?case by simp
next
  case (Cons x cs)
  obtain e c where x: "x = (e, c)" by (cases x)
  with Cons.prems(3) obtain t where t: "exec e c s = Inr t" and r: "run cs t = Inr s'"
    by (auto simp: bindE_Inr_iff)
  from Cons.prems(1,2) x t have rt: "reachable t" by (auto intro: reachable.step)
  note st = exec_refunded [OF t reachable_funds_ok [OF Cons.prems(1)] Cons.prems(4)]
  from Cons.IH [OF rt _ r] Cons.prems(2) st show ?case by simp
qed

subsection \<open>Refunds\<close>

lemma isEligible_True_iff:
  "isEligible e a = Inr True \<longleftrightarrow>
     isFlagged a \<or> (unat (donorTimestamp a) + unat REFUND_LOCK_PERIOD < unat (block_timestamp e)
                    \<and> stage_index (currentStage a) < stage_index Beneficiary)"
proof (cases "isFlagged a")
  case True
  then show ?thesis by (simp add: isEligible_def)
next
  case False
  show ?thesis
  proof (cases "unat (donorTimestamp a) + unat REFUND_LOCK_PERIOD < 2 ^ LENGTH(256)")
    case True
    then have "unat (donorTimestamp a + REFUND_LOCK_PERIOD)
        = unat (donorTimestamp a) + unat REFUND_LOCK_PERIOD"
      by (rule unat_add_lem [THEN iffD1])
    with True False show ?thesis
      by (simp add: isEligible_def safe_add_def word_less_nat_alt)
  next
    case over: False
    have "unat (block_timestamp e) < 2 ^ LENGTH(256)" by (rule unsigned_less)
    with over have "\<not> unat (donorTimestamp a) + unat REFUND_LOCK_PERIOD < unat (block_timestamp e)"
      by linarith
    with over False show ?thesis by (simp add: isEligible_def safe_add_def)
  qed
qed

lemma isEligible_False_iff:
  "isEligible e a = Inr False \<longleftrightarrow>
     \<not> isFlagged a \<and> unat (donorTimestamp a) + unat REFUND_LOCK_PERIOD < 2 ^ 256
     \<and> \<not> (unat (donorTimestamp a) + unat REFUND_LOCK_PERIOD < unat (block_timestamp e)
          \<and> stage_index (currentStage a) < stage_index Beneficiary)"
proof (cases "isFlagged a")
  case True
  then show ?thesis by (simp add: isEligible_def)
next
  case False
  show ?thesis
  proof (cases "unat (donorTimestamp a) + unat REFUND_LOCK_PERIOD < 2 ^ LENGTH(256)")
    case True
    then have "unat (donorTimestamp a + REFUND_LOCK_PERIOD)
        = unat (donorTimestamp a) + unat REFUND_LOCK_PERIOD"
      by (rule unat_add_lem [THEN iffD1])
    with True False show ?thesis
      by (simp add: isEligible_def safe_add_def word_less_nat_alt)
  next
    case over: False
    with False show ?thesis by (simp add: isEligible_def safe_add_def)
  qed
qed

lemma escrow_unat:
  "releasedFunds (assets s i) \<le> allocatedFunds (assets s i) \<Longrightarrow>
   unat (allocatedFunds (assets s i) - releasedFunds (assets s i)) = escrow s i"
  by (simp add: escrow_def unat_sub)

lemma requestRefund_iff:
  "requestRefund e i s = Inr s' \<longleftrightarrow>
     msg_value e = 0
     \<and> assetExists s i \<and> donor (assets s i) = msg_sender e \<and> \<not> isRefunded (assets s i)
     \<and> (isFlagged (assets s i)
         \<or> (unat (donorTimestamp (assets s i)) + unat REFUND_LOCK_PERIOD < unat (block_timestamp e)
            \<and> stage_index (currentStage (assets s i)) < stage_index Beneficiary))
     \<and> releasedFunds (assets s i) < allocatedFunds (assets s i)
     \<and> escrow s i \<le> balance s \<and> accepts e (msg_sender e)
     \<and> s' = refund_result e i s"
proof (cases "msg_value e = 0 \<and> assetExists s i \<and> donor (assets s i) = msg_sender e
    \<and> \<not> isRefunded (assets s i)")
  case False
  then show ?thesis by (auto simp: requestRefund_def)
next
  case pre: True
  show ?thesis
  proof (cases "isEligible e (assets s i) = Inr True")
    case False
    then have "requestRefund e i s \<noteq> Inr s'"
      using pre by (cases "isEligible e (assets s i)") (auto simp: requestRefund_def)
    moreover from False have "\<not> (isFlagged (assets s i)
         \<or> (unat (donorTimestamp (assets s i)) + unat REFUND_LOCK_PERIOD < unat (block_timestamp e)
            \<and> stage_index (currentStage (assets s i)) < stage_index Beneficiary))"
      unfolding isEligible_True_iff .
    ultimately show ?thesis by blast
  next
    case el: True
    then have el': "isFlagged (assets s i)
         \<or> (unat (donorTimestamp (assets s i)) + unat REFUND_LOCK_PERIOD < unat (block_timestamp e)
            \<and> stage_index (currentStage (assets s i)) < stage_index Beneficiary)"
      unfolding isEligible_True_iff .
    show ?thesis
    proof (cases "releasedFunds (assets s i) < allocatedFunds (assets s i)")
      case False
      then have "requestRefund e i s \<noteq> Inr s'"
        using pre el by (auto simp: requestRefund_def safe_sub_def word_neq_0_conv [symmetric])
      with False show ?thesis by blast
    next
      case lt: True
      then have le: "releasedFunds (assets s i) \<le> allocatedFunds (assets s i)" by simp
      from lt have pos: "0 < allocatedFunds (assets s i) - releasedFunds (assets s i)"
        by (simp add: word_neq_0_conv [symmetric])
      have "requestRefund e i s =
          (if escrow s i \<le> balance s \<and> accepts e (msg_sender e)
           then Inr (refund_result e i s) else Inl Refund_transfer_failed)"
        using pre el le pos
        by (simp add: requestRefund_def safe_sub_def Let_def requestRefund_before_call_def
            call_value_def upd_asset_def emit_def escrow_unat refund_result_def)
      with pre el' lt show ?thesis by auto
    qed
  qed
qed

subsection \<open>The scenario\<close>

lemmas op_defs = tx_def rejecting_def scenario_roles_def empty_asset_def
  addNGO_def addScanner_def grantRole_def hasRole_def grant_role_def
  initAsset_def scanAsset_def checkAndReleaseMilestone_def milestoneStep_def milestone_due_def
  releaseAmount_def release_before_call_def release_after_call_def call_value_def emit_def
  upd_asset_def setupDefaultMilestones_def assetExists_def anomalyDetected_def
  manualReleaseFunds_def manualRelease_before_call_def manualRelease_after_call_def
  flagAsset_def unflagAsset_def requestRefund_def requestRefund_before_call_def isEligible_def
  REFUND_LOCK_PERIOD_def emergencyWithdraw_def updateMinScans_def getAssetProgress_def
  safe_add_def safe_sub_def safe_mul_def safe_div_def bindE_def Let_def upt_rec

lemma sender_tx [simp]: "msg_sender (tx a v t) = a"
  by (simp add: tx_def)

lemma deployed_step: "constructor 1 2 = Inr deployed"
  by (simp add: constructor_def deployed_def)

lemma registered_run:
  "run [(tx 1 0 10, AddNGO 3), (tx 1 0 10, AddScanner 4)] deployed = Inr registered"
  by (simp add: deployed_def constructor_state_def registered_def op_defs)

lemma created_step:
  "exec (tx 5 1000 100) (InitAsset 7 ''1000 food packets'' 3 ''Depot'') registered = Inr created"
  by (simp add: registered_def created_def op_defs)

lemma at_hub_step:
  "exec (tx 4 0 200) (ScanAsset 7 ''Hub'' Hub 9 ''arrived'') created = Inr at_hub"
  by (simp add: created_def at_hub_def op_defs)

lemma delivered_step:
  "exec (tx 4 0 300) (ScanAsset 7 ''Village'' Beneficiary 9 ''handed over'') at_hub
     = Inr delivered"
  by (simp add: at_hub_def delivered_def op_defs)

lemma flagged_step: "exec (tx 2 0 150) (FlagAsset 7 ''audit'') created = Inr flagged"
  by (simp add: created_def flagged_def op_defs)

lemma refunded_early_step: "exec (tx 5 0 160) (RequestRefund 7) flagged = Inr refunded_early"
  by (simp add: flagged_def refunded_early_def op_defs)

lemma refunded_at_hub_step:
  "exec (tx 5 0 2592101) (RequestRefund 7) at_hub = Inr refunded_at_hub"
  by (simp add: at_hub_def refunded_at_hub_def op_defs)

lemma scanned_after_refund_step:
  "exec (tx 4 0 2592200) (ScanAsset 7 ''Village'' Beneficiary 9 ''late'') refunded_at_hub
     = Inr scanned_after_refund"
  by (simp add: refunded_at_hub_def scanned_after_refund_def op_defs)

lemma regressed_step:
  "exec (tx 4 0 250) (ScanAsset 7 ''Road'' Transport 9 ''sent back'') at_hub = Inr regressed"
  by (simp add: at_hub_def regressed_def op_defs)

lemma drained_step: "exec (tx 1 0 120) (EmergencyWithdraw 6) created = Inr drained"
  by (simp add: created_def drained_def op_defs)


lemma small_created_step:
  "exec (tx 5 3 100) (InitAsset 8 ''3 blankets'' 3 ''Depot'') registered = Inr small_created"
  by (simp add: registered_def small_created_def op_defs)

lemma small_at_hub_step:
  "exec (tx 4 0 200) (ScanAsset 8 ''Hub'' Hub 9 ''arrived'') small_created = Inr small_at_hub"
  by (simp add: small_created_def small_at_hub_def op_defs)

lemma small_delivered_step:
  "exec (tx 4 0 300) (ScanAsset 8 ''Village'' Beneficiary 9 ''handed over'') small_at_hub
     = Inr small_delivered"
  by (simp add: small_at_hub_def small_delivered_def op_defs)

lemma reachable_deployed: "reachable deployed"
  by (rule reachable.init [OF deployed_step])

lemma reachable_registered: "reachable registered"
  by (rule reachable_run [OF reachable_deployed _ registered_run]) simp

lemma reachable_created: "reachable created"
  by (rule reachable.step [OF reachable_registered _ created_step]) simp

lemma reachable_at_hub: "reachable at_hub"
  by (rule reachable.step [OF reachable_created _ at_hub_step]) simp

lemma reachable_delivered: "reachable delivered"
  by (rule reachable.step [OF reachable_at_hub _ delivered_step]) simp

lemma reachable_flagged: "reachable flagged"
  by (rule reachable.step [OF reachable_created _ flagged_step]) simp

lemma reachable_refunded_early: "reachable refunded_early"
  by (rule reachable.step [OF reachable_flagged _ refunded_early_step]) simp

lemma reachable_refunded_at_hub: "reachable refunded_at_hub"
  by (rule reachable.step [OF reachable_at_hub _ refunded_at_hub_step]) simp

lemma reachable_regressed: "reachable regressed"
  by (rule reachable.step [OF reachable_at_hub _ regressed_step]) simp

lemma reachable_small_created: "reachable small_created"
  by (rule reachable.step [OF reachable_registered _ small_created_step]) simp

lemma reachable_small_at_hub: "reachable small_at_hub"
  by (rule reachable.step [OF reachable_small_created _ small_at_hub_step]) simp

lemma reachable_small_delivered: "reachable small_delivered"
  by (rule reachable.step [OF reachable_small_at_hub _ small_delivered_step]) simp

subsection \<open>Escrow accounting\<close>

text \<open>
  Claim C1. In every reachable state and for every asset, \<open>releasedFunds\<close> is at most
  \<open>allocatedFunds\<close>, and every successful transaction from a reachable state
  (\<open>initAsset\<close>, the milestone release inside \<open>scanAsset\<close>,
  \<open>manualReleaseFunds\<close>, \<open>requestRefund\<close> and all others) leads to a state where
  this still holds.
\<close>

theorem released_le_allocated:
  assumes "reachable s"
  shows "releasedFunds (assets s i) \<le> allocatedFunds (assets s i)
    \<and> (\<forall>e c s'. msg_sender e \<noteq> 0 \<and> exec e c s = Inr s'
          \<longrightarrow> releasedFunds (assets s' i) \<le> allocatedFunds (assets s' i))"
proof -
  have "funds_ok (assets s i)" using assms by (rule reachable_funds_ok)
  moreover have "funds_ok (assets s' i)" if "msg_sender e \<noteq> 0" and "exec e c s = Inr s'"
    for e c s'
    using reachable.step [OF assms that] by (rule reachable_funds_ok)
  ultimately show ?thesis by (auto simp: funds_ok_def)
qed

theorem released_le_allocated_witness:
  "reachable at_hub \<and> releasedFunds (assets at_hub 7) = 400
   \<and> allocatedFunds (assets at_hub 7) = 1000
   \<and> releasedFunds (assets at_hub 7) \<le> allocatedFunds (assets at_hub 7)
   \<and> msg_sender (tx 4 0 300) \<noteq> 0
   \<and> exec (tx 4 0 300) (ScanAsset 7 ''Village'' Beneficiary 9 ''handed over'') at_hub
       = Inr delivered
   \<and> releasedFunds (assets delivered 7) = 1000
   \<and> releasedFunds (assets delivered 7) \<le> allocatedFunds (assets delivered 7)"
proof -
  have n: "msg_sender (tx 4 0 300) \<noteq> 0" by simp
  note t = released_le_allocated [OF reachable_at_hub, of 7]
  from t n delivered_step
  have "releasedFunds (assets delivered 7) \<le> allocatedFunds (assets delivered 7)"
    by blast
  moreover have "releasedFunds (assets at_hub 7) = 400" "allocatedFunds (assets at_hub 7) = 1000"
    "releasedFunds (assets delivered 7) = 1000"
    by (simp_all add: at_hub_def delivered_def)
  ultimately show ?thesis using t n delivered_step reachable_at_hub by simp
qed

text \<open>
  Claim C7, as the code has it. The claim says that \<open>allocatedFunds = 0\<close> cannot occur
  for an existing asset. It can: \<open>requestRefund\<close> sets \<open>allocatedFunds\<close> to
  \<open>releasedFunds\<close>, which is 0 when nothing was released before the refund, and
  \<open>getAssetProgress\<close> then fails on the division by zero.
\<close>

theorem allocated_zero_counterexample:
  "reachable refunded_early \<and> assetExists refunded_early 7
   \<and> allocatedFunds (assets refunded_early 7) = 0
   \<and> getAssetProgress refunded_early 7 = Inl Panic_division_by_zero"
  by (simp add: reachable_refunded_early) (simp add: refunded_early_def op_defs)

text \<open>
  Claim C7, amended. For an existing asset in a reachable state, \<open>allocatedFunds = 0\<close>
  holds exactly when the asset was refunded with nothing released; for an asset that was
  not refunded \<open>allocatedFunds\<close> is positive and \<open>getAssetProgress\<close> never fails
  on a division by zero.
\<close>

theorem allocated_zero_only_after_refund:
  assumes "reachable s" and "assetExists s i"
  shows "(allocatedFunds (assets s i) = 0
           \<longleftrightarrow> isRefunded (assets s i) \<and> releasedFunds (assets s i) = 0)
    \<and> (\<not> isRefunded (assets s i) \<longrightarrow> getAssetProgress s i \<noteq> Inl Panic_division_by_zero)"
proof -
  from assms(1) have ok: "funds_ok (assets s i)" by (rule reachable_funds_ok)
  with assms(2) have 1: "allocatedFunds (assets s i) = 0
           \<longleftrightarrow> isRefunded (assets s i) \<and> releasedFunds (assets s i) = 0"
    by (auto simp: funds_ok_def assetExists_def)
  have "getAssetProgress s i \<noteq> Inl Panic_division_by_zero" if "\<not> isRefunded (assets s i)"
  proof -
    from that 1 have nz: "allocatedFunds (assets s i) \<noteq> 0" by simp
    have four: "(of_nat (stage_index Beneficiary) :: uint256) \<noteq> 0" by simp
    show ?thesis using nz four assms(2)
      by (auto simp: getAssetProgress_def Let_def bindE_def safe_mul_def safe_div_def
          split: sum.splits if_splits)
  qed
  with 1 show ?thesis by simp
qed

theorem allocated_zero_only_after_refund_witness:
  "reachable at_hub \<and> assetExists at_hub 7 \<and> \<not> isRefunded (assets at_hub 7)
   \<and> allocatedFunds (assets at_hub 7) = 1000
   \<and> getAssetProgress at_hub 7 = Inr (50, 40)"
proof -
  have a: "assetExists at_hub 7" and b: "\<not> isRefunded (assets at_hub 7)"
    and c: "getAssetProgress at_hub 7 = Inr (50, 40)"
    and d: "allocatedFunds (assets at_hub 7) = 1000"
    by (simp_all add: at_hub_def op_defs)
  from allocated_zero_only_after_refund [OF reachable_at_hub a] b c d
  show ?thesis by (simp add: reachable_at_hub a)
qed

text \<open>
  Claim C8. Once \<open>requestRefund\<close> has succeeded for an asset (it is then marked
  refunded and \<open>allocatedFunds = releasedFunds\<close>), a later \<open>scanAsset\<close> of that
  asset, after any sequence of successful transactions, may succeed but changes neither
  \<open>releasedFunds\<close> nor any milestone of the asset and transfers nothing.
\<close>

theorem no_release_after_refund:
  assumes "reachable s" and "requestRefund e i s = Inr s1"
    and "\<forall>(e', c) \<in> set cs. msg_sender e' \<noteq> 0" and "run cs s1 = Inr t"
    and "scanAsset e' i g st h n t = Inr t'"
  shows "isRefunded (assets s1 i) \<and> allocatedFunds (assets s1 i) = releasedFunds (assets s1 i)
    \<and> releasedFunds (assets t' i) = releasedFunds (assets s1 i)
    \<and> assetMilestones t' i = assetMilestones s1 i
    \<and> sent t' = sent t"
proof -
  from assms(2) have s1: "s1 = refund_result e i s" and x: "assetExists s i"
    and d: "donor (assets s i) = msg_sender e"
    unfolding requestRefund_iff by blast+
  from x d have ne: "msg_sender e \<noteq> 0" by (simp add: assetExists_def)
  have ex: "exec e (RequestRefund i) s = Inr s1" using assms(2) by simp
  have r1: "reachable s1" using assms(1) ne ex by (rule reachable.step)
  from s1 have rf: "isRefunded (assets s1 i)"
    and eq: "allocatedFunds (assets s1 i) = releasedFunds (assets s1 i)"
    by (simp_all add: refund_result_def)
  note fr = run_refunded [OF r1 assms(3,4) rf]
  from fr have B: "releasedFunds (assets t i) = releasedFunds (assets s1 i)"
    "assetMilestones t i = assetMilestones s1 i" by blast+
  have "reachable t" using r1 assms(3,4) by (rule reachable_run)
  then have "funds_ok (assets t i)" by (rule reachable_funds_ok)
  then have "isRefunded (assets t i) \<longrightarrow> allocatedFunds (assets t i) = releasedFunds (assets t i)"
    by (simp add: funds_ok_def)
  with fr have "releasedFunds (assets t i) = allocatedFunds (assets t i)" by metis
  note A = scanAsset_refunded [OF assms(5) this]
  from A B have "releasedFunds (assets t' i) = releasedFunds (assets s1 i)"
    "assetMilestones t' i = assetMilestones s1 i" "sent t' = sent t"
    by metis+
  with rf eq show ?thesis by blast
qed

theorem no_release_after_refund_witness:
  "reachable at_hub \<and> requestRefund (tx 5 0 2592101) 7 at_hub = Inr refunded_at_hub
   \<and> run [] refunded_at_hub = Inr refunded_at_hub
   \<and> scanAsset (tx 4 0 2592200) 7 ''Village'' Beneficiary 9 ''late'' refunded_at_hub
       = Inr scanned_after_refund
   \<and> allocatedFunds (assets refunded_at_hub 7) = 400
   \<and> releasedFunds (assets refunded_at_hub 7) = 400
   \<and> releasedFunds (assets scanned_after_refund 7) = 400
   \<and> currentStage (assets scanned_after_refund 7) = Beneficiary
   \<and> assetMilestones scanned_after_refund 7 = assetMilestones refunded_at_hub 7"
proof -
  have a: "requestRefund (tx 5 0 2592101) 7 at_hub = Inr refunded_at_hub"
    using refunded_at_hub_step by simp
  have b: "scanAsset (tx 4 0 2592200) 7 ''Village'' Beneficiary 9 ''late'' refunded_at_hub
       = Inr scanned_after_refund"
    using scanned_after_refund_step by simp
  have c: "run [] refunded_at_hub = Inr refunded_at_hub" by simp
  have d: "releasedFunds (assets refunded_at_hub 7) = 400"
    "currentStage (assets scanned_after_refund 7) = Beneficiary"
    by (simp_all add: refunded_at_hub_def scanned_after_refund_def)
  from no_release_after_refund [OF reachable_at_hub a _ c b] a b c d
  show ?thesis by (simp add: reachable_at_hub)
qed

subsection \<open>Scans, anomalies and flags\<close>

lemma anomalyDetected_iff:
  "anomalyDetected a g st h \<longleftrightarrow>
     stage_index st < stage_index (currentStage a)
     \<or> (g = currentGeoTag a \<and> st \<noteq> currentStage a)
     \<or> ((st = Hub \<or> st = Beneficiary) \<and> h = 0)"
  by (auto simp: anomalyDetected_def)

text \<open>
  Claim C4. A successful \<open>scanAsset\<close> computes the anomaly flag as the disjunction of
  the three conditions (the stage went back; the location is the same although the stage
  changed; a scan at Hub or Beneficiary without a photo hash). The flag becomes the
  asset's \<open>isFlagged\<close> and is stored in the one entry appended to the history; whatever
  the flag, \<open>scansCount\<close> grows by one and location and stage become the reported ones.
\<close>

theorem scan_records_anomaly:
  assumes "scanAsset e i g st h n s = Inr s'"
  shows "isFlagged (assets s' i) =
           (stage_index st < stage_index (currentStage (assets s i))
            \<or> (g = currentGeoTag (assets s i) \<and> st \<noteq> currentStage (assets s i))
            \<or> ((st = Hub \<or> st = Beneficiary) \<and> h = 0))
    \<and> assetHistory s' i = assetHistory s i @
          [\<lparr>timestamp = block_timestamp e, scanner = msg_sender e, geoTag = g, scanStage = st,
            photoHash = h,
            anomalyFlagged =
              (stage_index st < stage_index (currentStage (assets s i))
               \<or> (g = currentGeoTag (assets s i) \<and> st \<noteq> currentStage (assets s i))
               \<or> ((st = Hub \<or> st = Beneficiary) \<and> h = 0)),
            scanNotes = n\<rparr>]
    \<and> unat (scansCount (assets s' i)) = unat (scansCount (assets s i)) + 1
    \<and> currentGeoTag (assets s' i) = g
    \<and> currentStage (assets s' i) = st"
proof -
  note ef = scanAsset_effect [OF assms]
  have "assetHistory s' i = assetHistory s i @
          [\<lparr>timestamp = block_timestamp e, scanner = msg_sender e, geoTag = g, scanStage = st,
            photoHash = h, anomalyFlagged = anomalyDetected (assets s i) g st h,
            scanNotes = n\<rparr>]"
    by (simp add: ef(12))
  with ef(2,3,4,5) show ?thesis by (simp only: anomalyDetected_iff simp_thms)
qed

theorem scan_records_anomaly_witness:
  "scanAsset (tx 4 0 250) 7 ''Road'' Transport 9 ''sent back'' at_hub = Inr regressed
   \<and> currentStage (assets at_hub 7) = Hub
   \<and> isFlagged (assets regressed 7)
   \<and> anomalyFlagged (last (assetHistory regressed 7))
   \<and> length (assetHistory regressed 7) = length (assetHistory at_hub 7) + 1
   \<and> scansCount (assets at_hub 7) = 2 \<and> scansCount (assets regressed 7) = 3
   \<and> currentGeoTag (assets regressed 7) = ''Road''
   \<and> currentStage (assets regressed 7) = Transport"
proof -
  have a: "scanAsset (tx 4 0 250) 7 ''Road'' Transport 9 ''sent back'' at_hub = Inr regressed"
    using regressed_step by simp
  have b: "currentStage (assets at_hub 7) = Hub" "scansCount (assets at_hub 7) = 2"
    "scansCount (assets regressed 7) = 3"
    by (simp_all add: at_hub_def regressed_def)
  from scan_records_anomaly [OF a] a b show ?thesis by simp
qed

text \<open>A flag stays, and the asset stays in existence, through every successful
  transaction other than the auditor's \<open>unflagAsset\<close> of that asset.\<close>

lemma exec_keeps_flag:
  assumes "exec e c s = Inr s'" and "c \<noteq> UnflagAsset i"
    and "isFlagged (assets s i)" and "assetExists s i"
  shows "isFlagged (assets s' i) \<and> assetExists s' i"
proof (cases c)
  case (InitAsset j d ngo g)
  with assms(1,3,4) show ?thesis
    by (auto simp: initAsset_def Let_def bindE_Inr_iff upd_asset_def emit_def assetExists_def
        setupDefaultMilestones_def split: if_splits)
next
  case (ScanAsset j g st h n)
  show ?thesis
  proof (cases "j = i")
    case True
    with ScanAsset assms(1,3) show ?thesis by (simp add: scanAsset_def split: if_splits)
  next
    case False
    with ScanAsset assms(1) have "scanAsset e j g st h n s = Inr s'" by simp
    from scanAsset_effect(10) [OF this, of i] False assms(3,4) show ?thesis
      by (simp add: assetExists_def)
  qed
next
  case (ManualReleaseFunds j r a)
  with assms(1,3,4) show ?thesis
    by (auto simp: manualReleaseFunds_def bindE_Inr_iff manualRelease_before_call_def
        manualRelease_after_call_def call_value_def upd_asset_def emit_def assetExists_def
        split: if_splits option.splits)
next
  case (RequestRefund j)
  with assms(1,3,4) show ?thesis
    by (auto simp: requestRefund_iff refund_result_def assetExists_def)
next
  case (FlagAsset j r)
  with assms(1,3,4) show ?thesis
    by (auto simp: flagAsset_def upd_asset_def emit_def assetExists_def split: if_splits)
next
  case (UnflagAsset j)
  with assms(1,2,3,4) show ?thesis
    by (auto simp: unflagAsset_def upd_asset_def emit_def assetExists_def split: if_splits)
next
  case (AddScanner a)
  with assms(1,3,4) show ?thesis
    by (auto simp: addScanner_def grantRole_def grant_role_def assetExists_def split: if_splits)
next
  case (AddNGO a)
  with assms(1,3,4) show ?thesis
    by (auto simp: addNGO_def grantRole_def grant_role_def assetExists_def split: if_splits)
next
  case (UpdateMinScans n)
  with assms(1,3,4) show ?thesis
    by (auto simp: updateMinScans_def assetExists_def split: if_splits)
next
  case (EmergencyWithdraw r)
  with assms(1,3,4) show ?thesis
    by (auto simp: emergencyWithdraw_def call_value_def assetExists_def
        split: if_splits option.splits)
next
  case (GrantRole r a)
  with assms(1,3,4) show ?thesis
    by (auto simp: grantRole_def grant_role_def assetExists_def split: if_splits)
next
  case (RevokeRole r a)
  with assms(1,3,4) show ?thesis
    by (auto simp: revokeRole_def revoke_role_def assetExists_def split: if_splits)
next
  case (RenounceRole r a)
  with assms(1,3,4) show ?thesis
    by (auto simp: renounceRole_def revoke_role_def assetExists_def split: if_splits)
qed

lemma run_keeps_flag:
  assumes "run cs s = Inr s'" and "\<forall>(e, c) \<in> set cs. c \<noteq> UnflagAsset i"
    and "isFlagged (assets s i)" and "assetExists s i"
  shows "isFlagged (assets s' i) \<and> assetExists s' i"
  using assms
proof (induction cs arbitrary: s)
  case Nil
  then show ?case by simp
next
  case (Cons x cs)
  obtain e c where x: "x = (e, c)" by (cases x)
  with Cons.prems(1) obtain t where t: "exec e c s = Inr t" and r: "run cs t = Inr s'"
    by (auto simp: bindE_Inr_iff)
  from Cons.prems(2) x have c: "c \<noteq> UnflagAsset i" by simp
  from exec_keeps_flag [OF t c Cons.prems(3,4)] Cons.IH [OF r] Cons.prems(2)
  show ?case by simp
qed

text \<open>
  Claim C5. A successful scan that reports a stage earlier than the current one leaves
  the asset flagged. The flag then stays through every sequence of successful
  transactions without an \<open>unflagAsset\<close> of that asset, and as long as it stays every
  \<open>scanAsset\<close> of the asset reverts: with \<open>Asset is flagged\<close> when the call
  carries no value and the caller is a registered scanner (a call with value and a caller
  without the role are rejected before the flag is looked at). A reverted call changes
  nothing. A successful \<open>unflagAsset\<close> clears the flag.
\<close>

theorem regression_flags_and_blocks:
  assumes "scanAsset e i g st h n s = Inr s1"
    and "stage_index st < stage_index (currentStage (assets s i))"
    and "run cs s1 = Inr t" and "\<forall>(e', c) \<in> set cs. c \<noteq> UnflagAsset i"
  shows "isFlagged (assets s1 i) \<and> isFlagged (assets t i)
    \<and> (msg_value e' = 0 \<and> hasRole t SCANNER_ROLE (msg_sender e') \<longrightarrow>
         scanAsset e' i g' st' h' n' t = Inl Asset_is_flagged)
    \<and> isl (scanAsset e' i g' st' h' n' t)
    \<and> (unflagAsset e'' i t = Inr u \<longrightarrow> \<not> isFlagged (assets u i))"
proof -
  from assms(1) have x: "assetExists s i" by (simp add: scanAsset_def split: if_splits)
  note ef = scanAsset_effect [OF assms(1)]
  from ef(5) assms(2) have f1: "isFlagged (assets s1 i)" by (simp add: anomalyDetected_iff)
  from ef(8) x have x1: "assetExists s1 i" by (simp add: assetExists_def)
  from run_keeps_flag [OF assms(3,4) f1 x1] have ft: "isFlagged (assets t i)"
    and xt: "assetExists t i" by simp_all
  from ft xt have "msg_value e' = 0 \<and> hasRole t SCANNER_ROLE (msg_sender e') \<longrightarrow>
         scanAsset e' i g' st' h' n' t = Inl Asset_is_flagged"
    by (simp add: scanAsset_def)
  moreover from ft xt have "isl (scanAsset e' i g' st' h' n' t)"
    by (simp add: scanAsset_def)
  moreover have "unflagAsset e'' i t = Inr u \<longrightarrow> \<not> isFlagged (assets u i)"
    by (auto simp: unflagAsset_def upd_asset_def emit_def split: if_splits)
  ultimately show ?thesis using f1 ft by blast
qed

theorem regression_flags_and_blocks_witness:
  "scanAsset (tx 4 0 250) 7 ''Road'' Transport 9 ''sent back'' at_hub = Inr regressed
   \<and> stage_index Transport < stage_index (currentStage (assets at_hub 7))
   \<and> run [(tx 1 0 260, UpdateMinScans 3)] regressed
       = Inr (regressed\<lparr>minScansForFirstPayout := 3\<rparr>)
   \<and> isFlagged (assets regressed 7)
   \<and> msg_value (tx 4 0 270) = 0
   \<and> hasRole (regressed\<lparr>minScansForFirstPayout := 3\<rparr>) SCANNER_ROLE (msg_sender (tx 4 0 270))
   \<and> scanAsset (tx 4 0 270) 7 ''Hub'' Hub 9 ''again'' (regressed\<lparr>minScansForFirstPayout := 3\<rparr>)
       = Inl Asset_is_flagged
   \<and> unflagAsset (tx 2 0 280) 7 (regressed\<lparr>minScansForFirstPayout := 3\<rparr>)
       = Inr (emit (AssetUnflagged 7 2)
           (upd_asset 7 (isFlagged_update (\<lambda>f. False)) (regressed\<lparr>minScansForFirstPayout := 3\<rparr>)))
   \<and> \<not> isFlagged (assets (emit (AssetUnflagged 7 2)
           (upd_asset 7 (isFlagged_update (\<lambda>f. False)) (regressed\<lparr>minScansForFirstPayout := 3\<rparr>))) 7)"
proof -
  have a: "scanAsset (tx 4 0 250) 7 ''Road'' Transport 9 ''sent back'' at_hub = Inr regressed"
    using regressed_step by simp
  have b: "stage_index Transport < stage_index (currentStage (assets at_hub 7))"
    by (simp add: at_hub_def)
  have c: "run [(tx 1 0 260, UpdateMinScans 3)] regressed
       = Inr (regressed\<lparr>minScansForFirstPayout := 3\<rparr>)"
    by (simp add: regressed_def op_defs)
  have d: "\<forall>(e', c) \<in> set [(tx 1 0 260, UpdateMinScans 3)]. c \<noteq> UnflagAsset 7" by simp
  have r: "hasRole (regressed\<lparr>minScansForFirstPayout := 3\<rparr>) SCANNER_ROLE (msg_sender (tx 4 0 270))"
    "msg_value (tx 4 0 270) = 0"
    by (simp_all add: regressed_def op_defs)
  have u: "unflagAsset (tx 2 0 280) 7 (regressed\<lparr>minScansForFirstPayout := 3\<rparr>)
       = Inr (emit (AssetUnflagged 7 2)
           (upd_asset 7 (isFlagged_update (\<lambda>f. False)) (regressed\<lparr>minScansForFirstPayout := 3\<rparr>)))"
    by (simp add: regressed_def op_defs)
  note t = regression_flags_and_blocks [OF a b c d, of "tx 4 0 270" "''Hub''" Hub 9 "''again''"
      "tx 2 0 280" "emit (AssetUnflagged 7 2)
           (upd_asset 7 (isFlagged_update (\<lambda>f. False)) (regressed\<lparr>minScansForFirstPayout := 3\<rparr>))"]
  from t a b c r u show ?thesis by blast
qed

subsection \<open>Refund requests\<close>

text \<open>
  Claim C3, as the code has it. The claim lets \<open>requestRefund\<close> succeed whenever the
  caller is the donor, the asset is not refunded, it is eligible and funds remain. The
  code also requires the transfer to the donor to succeed (line 418): for the flagged
  asset 7, with all four conditions true, the request of a donor who does not accept the
  payment reverts.
\<close>

theorem refund_iff_counterexample:
  "msg_value (rejecting 5 160) = 0
   \<and> donor (assets flagged 7) = msg_sender (rejecting 5 160)
   \<and> \<not> isRefunded (assets flagged 7) \<and> isFlagged (assets flagged 7)
   \<and> 0 < escrow flagged 7
   \<and> requestRefund (rejecting 5 160) 7 flagged = Inl Refund_transfer_failed"
  by (simp add: flagged_def escrow_def op_defs)

text \<open>
  Claim C3, amended. \<open>requestRefund\<close> succeeds if and only if the call carries no
  value, the asset exists, the caller is its donor, it is not refunded, it is eligible
  (flagged, or the lock period of 30 days has passed since creation and the stage is
  before Beneficiary), released funds are below allocated funds, and the transfer of the
  remainder to the donor succeeds. On
  success the asset is marked refunded, \<open>allocatedFunds\<close> becomes \<open>releasedFunds\<close>
  and exactly the former remainder is sent to the donor (\<open>refund_result\<close>). A call
  without value by the donor of an existing asset that does not succeed reverts: with \<open>Already refunded\<close>, \<open>Not eligible for refund\<close>,
  \<open>No funds to refund\<close> or \<open>Refund transfer failed\<close> for the first of these
  conditions that fails, in this order; \<open>Not eligible for refund\<close> is the answer
  where creation time plus lock period fits in 256 bits (the checked addition reverts
  otherwise).
\<close>

theorem requestRefund_succeeds_iff:
  "(requestRefund e i s = Inr s' \<longleftrightarrow>
      msg_value e = 0
      \<and> assetExists s i \<and> donor (assets s i) = msg_sender e \<and> \<not> isRefunded (assets s i)
      \<and> (isFlagged (assets s i)
          \<or> (unat (donorTimestamp (assets s i)) + unat REFUND_LOCK_PERIOD < unat (block_timestamp e)
              \<and> stage_index (currentStage (assets s i)) < stage_index Beneficiary))
      \<and> releasedFunds (assets s i) < allocatedFunds (assets s i)
      \<and> escrow s i \<le> balance s \<and> accepts e (msg_sender e)
      \<and> s' = refund_result e i s)
   \<and> (msg_value e = 0 \<and> assetExists s i \<and> donor (assets s i) = msg_sender e \<longrightarrow>
        (isRefunded (assets s i) \<longrightarrow> requestRefund e i s = Inl Already_refunded)
        \<and> (\<not> isRefunded (assets s i) \<and> \<not> isFlagged (assets s i)
            \<and> unat (donorTimestamp (assets s i)) + unat REFUND_LOCK_PERIOD < 2 ^ 256
            \<and> \<not> (unat (donorTimestamp (assets s i)) + unat REFUND_LOCK_PERIOD
                   < unat (block_timestamp e)
                 \<and> stage_index (currentStage (assets s i)) < stage_index Beneficiary)
            \<longrightarrow> requestRefund e i s = Inl Not_eligible_for_refund)
        \<and> (\<not> isRefunded (assets s i) \<and> isEligible e (assets s i) = Inr True
            \<and> allocatedFunds (assets s i) = releasedFunds (assets s i)
            \<longrightarrow> requestRefund e i s = Inl No_funds_to_refund)
        \<and> (\<not> isRefunded (assets s i) \<and> isEligible e (assets s i) = Inr True
            \<and> releasedFunds (assets s i) < allocatedFunds (assets s i)
            \<and> \<not> (escrow s i \<le> balance s \<and> accepts e (msg_sender e))
            \<longrightarrow> requestRefund e i s = Inl Refund_transfer_failed))"
proof -
  have "requestRefund e i s = Inl Not_eligible_for_refund"
    if "msg_value e = 0" "assetExists s i" "donor (assets s i) = msg_sender e" "\<not> isRefunded (assets s i)"
      "isEligible e (assets s i) = Inr False"
    using that by (simp add: requestRefund_def)
  moreover have "requestRefund e i s = Inl No_funds_to_refund"
    if "msg_value e = 0" "assetExists s i" "donor (assets s i) = msg_sender e" "\<not> isRefunded (assets s i)"
      "isEligible e (assets s i) = Inr True"
      "allocatedFunds (assets s i) = releasedFunds (assets s i)"
    using that by (simp add: requestRefund_def safe_sub_def)
  moreover have "requestRefund e i s = Inl Refund_transfer_failed"
    if "msg_value e = 0" "assetExists s i" "donor (assets s i) = msg_sender e" "\<not> isRefunded (assets s i)"
      "isEligible e (assets s i) = Inr True"
      "releasedFunds (assets s i) < allocatedFunds (assets s i)"
      "\<not> (escrow s i \<le> balance s \<and> accepts e (msg_sender e))"
  proof -
    from that(6) have le: "releasedFunds (assets s i) \<le> allocatedFunds (assets s i)" by simp
    from that(6) have pos: "0 < allocatedFunds (assets s i) - releasedFunds (assets s i)"
      by (simp add: word_neq_0_conv [symmetric])
    show ?thesis using that le pos
      by (simp add: requestRefund_def safe_sub_def Let_def requestRefund_before_call_def
          call_value_def upd_asset_def escrow_unat)
  qed
  moreover have "requestRefund e i s = Inl Already_refunded"
    if "msg_value e = 0" "assetExists s i" "donor (assets s i) = msg_sender e" "isRefunded (assets s i)"
    using that by (simp add: requestRefund_def)
  ultimately show ?thesis
    unfolding isEligible_False_iff [symmetric] using requestRefund_iff [of e i s s'] by blast
qed

theorem requestRefund_succeeds_iff_witness:
  "msg_value (tx 5 0 2592101) = 0
   \<and> assetExists at_hub 7 \<and> donor (assets at_hub 7) = msg_sender (tx 5 0 2592101)
   \<and> \<not> isRefunded (assets at_hub 7) \<and> \<not> isFlagged (assets at_hub 7)
   \<and> unat (donorTimestamp (assets at_hub 7)) + unat REFUND_LOCK_PERIOD
       < unat (block_timestamp (tx 5 0 2592101))
   \<and> stage_index (currentStage (assets at_hub 7)) < stage_index Beneficiary
   \<and> releasedFunds (assets at_hub 7) < allocatedFunds (assets at_hub 7)
   \<and> escrow at_hub 7 = 600 \<and> balance at_hub = 600 \<and> accepts (tx 5 0 2592101) 5
   \<and> requestRefund (tx 5 0 2592101) 7 at_hub = Inr refunded_at_hub
   \<and> refunded_at_hub = refund_result (tx 5 0 2592101) 7 at_hub
   \<and> isRefunded (assets refunded_at_hub 7)
   \<and> allocatedFunds (assets refunded_at_hub 7) = 400
   \<and> sent refunded_at_hub = sent at_hub @ [(5, 600)]
   \<and> requestRefund (tx 5 0 2592102) 7 refunded_at_hub = Inl Already_refunded
   \<and> requestRefund (tx 5 0 300) 7 at_hub = Inl Not_eligible_for_refund
   \<and> requestRefund (rejecting 5 2592101) 7 at_hub = Inl Refund_transfer_failed"
proof -
  have a: "requestRefund (tx 5 0 2592101) 7 at_hub = Inr refunded_at_hub"
    using refunded_at_hub_step by simp
  have b: "assetExists at_hub 7" "donor (assets at_hub 7) = msg_sender (tx 5 0 2592101)"
    "\<not> isRefunded (assets at_hub 7)" "\<not> isFlagged (assets at_hub 7)"
    "unat (donorTimestamp (assets at_hub 7)) + unat REFUND_LOCK_PERIOD
       < unat (block_timestamp (tx 5 0 2592101))"
    "stage_index (currentStage (assets at_hub 7)) < stage_index Beneficiary"
    "releasedFunds (assets at_hub 7) < allocatedFunds (assets at_hub 7)"
    "escrow at_hub 7 = 600" "balance at_hub = 600" "accepts (tx 5 0 2592101) 5"
    "msg_value (tx 5 0 2592101) = 0"
    by (simp_all add: at_hub_def escrow_def op_defs)
  have c: "isRefunded (assets refunded_at_hub 7)"
    "allocatedFunds (assets refunded_at_hub 7) = 400"
    "sent refunded_at_hub = sent at_hub @ [(5, 600)]"
    by (simp_all add: refunded_at_hub_def at_hub_def)
  have d: "requestRefund (tx 5 0 2592102) 7 refunded_at_hub = Inl Already_refunded"
    by (simp add: refunded_at_hub_def op_defs)
  have e: "requestRefund (tx 5 0 300) 7 at_hub = Inl Not_eligible_for_refund"
    "requestRefund (rejecting 5 2592101) 7 at_hub = Inl Refund_transfer_failed"
    by (simp_all add: at_hub_def op_defs)
  from requestRefund_succeeds_iff [of "tx 5 0 2592101" 7 at_hub refunded_at_hub] a
  have "refunded_at_hub = refund_result (tx 5 0 2592101) 7 at_hub" by blast
  with a b c d e show ?thesis by simp
qed

subsection \<open>The emergency withdrawal\<close>

text \<open>
  Claim C10. \<open>emergencyWithdraw\<close> succeeds exactly for a call without value by a
  caller holding \<open>DEFAULT_ADMIN_ROLE\<close>, with a non-zero recipient that accepts the
  payment and a positive balance; it sends the whole balance of the contract to the recipient and changes nothing
  else: no asset, milestone, scan log or total. So if any asset still had funds in escrow,
  the escrow of all assets together no longer equals the (now empty) balance.
\<close>

theorem emergencyWithdraw_drains_escrow:
  "(emergencyWithdraw e r s = Inr s' \<longleftrightarrow>
      msg_value e = 0 \<and> hasRole s DEFAULT_ADMIN_ROLE (msg_sender e) \<and> r \<noteq> 0
      \<and> 0 < balance s \<and> accepts e r
      \<and> s' = s\<lparr>balance := 0, sent := sent s @ [(r, balance s)]\<rparr>)
   \<and> (emergencyWithdraw e r s = Inr s' \<and> 0 < escrow s i \<longrightarrow>
        escrow s' i = escrow s i \<and> balance s' = 0 \<and> (\<Sum>j\<in>UNIV. escrow s' j) \<noteq> balance s')"
proof -
  have 1: "emergencyWithdraw e r s = Inr s' \<longleftrightarrow>
      msg_value e = 0 \<and> hasRole s DEFAULT_ADMIN_ROLE (msg_sender e) \<and> r \<noteq> 0
      \<and> 0 < balance s \<and> accepts e r
      \<and> s' = s\<lparr>balance := 0, sent := sent s @ [(r, balance s)]\<rparr>"
    by (auto simp: emergencyWithdraw_def call_value_def split: if_splits)
  have 2: "escrow s' i = escrow s i \<and> balance s' = 0 \<and> (\<Sum>j\<in>UNIV. escrow s' j) \<noteq> balance s'"
    if w: "emergencyWithdraw e r s = Inr s'" and p: "0 < escrow s i"
  proof -
    from w 1 have s': "s' = s\<lparr>balance := 0, sent := sent s @ [(r, balance s)]\<rparr>" by blast
    then have eq: "escrow s' i = escrow s i" and b: "balance s' = 0"
      by (simp_all add: escrow_def)
    have "escrow s' i \<le> (\<Sum>j\<in>UNIV. escrow s' j)"
      by (rule member_le_sum) simp_all
    with eq p have "(\<Sum>j\<in>UNIV. escrow s' j) \<noteq> 0" by linarith
    with eq b show ?thesis by (simp only: simp_thms)
  qed
  show ?thesis
  proof (rule conjI [OF 1], rule impI, elim conjE)
    assume "emergencyWithdraw e r s = Inr s'" and "0 < escrow s i"
    then show "escrow s' i = escrow s i \<and> balance s' = 0
        \<and> (\<Sum>j\<in>UNIV. escrow s' j) \<noteq> balance s'"
      by (rule 2)
  qed
qed

theorem emergencyWithdraw_drains_escrow_witness:
  "emergencyWithdraw (tx 1 0 120) 6 created = Inr drained
   \<and> msg_value (tx 1 0 120) = 0
   \<and> hasRole created DEFAULT_ADMIN_ROLE (msg_sender (tx 1 0 120))
   \<and> escrow created 7 = 1000 \<and> balance created = 1000
   \<and> drained = created\<lparr>balance := 0, sent := sent created @ [(6, balance created)]\<rparr>
   \<and> sent drained = [(6, 1000)]
   \<and> escrow drained 7 = 1000 \<and> balance drained = 0
   \<and> (\<Sum>j\<in>UNIV. escrow drained j) \<noteq> balance drained
   \<and> emergencyWithdraw (tx 2 0 120) 6 created = Inl (Missing_role DEFAULT_ADMIN_ROLE)"
proof -
  have a: "emergencyWithdraw (tx 1 0 120) 6 created = Inr drained"
    using drained_step by simp
  have b: "escrow created 7 = 1000" "balance created = 1000" "sent drained = [(6, 1000)]"
    "hasRole created DEFAULT_ADMIN_ROLE (msg_sender (tx 1 0 120))"
    "emergencyWithdraw (tx 2 0 120) 6 created = Inl (Missing_role DEFAULT_ADMIN_ROLE)"
    "msg_value (tx 1 0 120) = 0"
    by (simp_all add: created_def drained_def escrow_def op_defs)
  note t = emergencyWithdraw_drains_escrow [of "tx 1 0 120" 6 created drained 7]
  from t [THEN conjunct1] a
  have c: "drained = created\<lparr>balance := 0, sent := sent created @ [(6, balance created)]\<rparr>"
    by simp
  have p: "0 < escrow created 7" using b(1) by simp
  from t [THEN conjunct2, rule_format, OF conjI, OF a p]
  have d: "escrow drained 7 = escrow created 7" "balance drained = 0"
    "(\<Sum>j\<in>UNIV. escrow drained j) \<noteq> balance drained"
    by (rule conjunct1, rule conjunct2 [THEN conjunct1], rule conjunct2 [THEN conjunct2])
  from d(1) b(1) have "escrow drained 7 = 1000" by (rule trans)
  with a b c d(2,3) show ?thesis by (intro conjI)
qed

subsection \<open>The order of state changes and transfers\<close>





subsection \<open>Milestones and their payouts\<close>














subsection \<open>The amounts of the two default milestones\<close>















end
